theory Spec2Isabelle
  imports Complex_Main "HOL-Library.AList"
begin

section \<open>Numeric values and errors\<close>

text \<open>
  The branch builder of pandapower (\<^verbatim>\<open>build_branch.py\<close>) computes with numpy arrays of
  \<^verbatim>\<open>float64\<close> and \<^verbatim>\<open>complex128\<close>.  A float is modelled as a \<^typ>\<open>real option\<close>:
  \<open>Some x\<close> is the finite value \<open>x\<close>, computed without rounding, and \<open>None\<close> stands for a
  value that is not finite (NaN, and the infinities a division by zero produces).  A value
  that is not finite stays so through every arithmetic operation.  \<^verbatim>\<open>np.isfinite\<close> and
  \<^verbatim>\<open>pd.notnull\<close> are the test for \<open>Some\<close>.
\<close>

type_synonym f64 = "real option"
type_synonym c128 = "complex option"

datatype error =
    UnknownTransformerModel string  \<comment> \<open>the \<^verbatim>\<open>ValueError\<close> raised by \<^verbatim>\<open>_calc_r_x_y_from_dataframe\<close>\<close>
  | BroadcastError                  \<comment> \<open>numpy's \<^verbatim>\<open>ValueError\<close>: shape mismatch in an assignment or a stack\<close>
  | LabelNotFound                   \<comment> \<open>pandas' \<^verbatim>\<open>ValueError\<close> of \<^verbatim>\<open>drop\<close>: label not contained in axis\<close>
  | IndexError
  | KeyError
  | UnboundLocalError

definition bind_r :: "error + 'a \<Rightarrow> ('a \<Rightarrow> error + 'b) \<Rightarrow> error + 'b" where
  "bind_r m f = (case m of Inl e \<Rightarrow> Inl e | Inr x \<Rightarrow> f x)"

fun mapM_r :: "('a \<Rightarrow> error + 'b) \<Rightarrow> 'a list \<Rightarrow> error + 'b list" where
  "mapM_r f [] = Inr []"
| "mapM_r f (x # xs) =
     (case f x of Inl e \<Rightarrow> Inl e
      | Inr y \<Rightarrow> (case mapM_r f xs of Inl e \<Rightarrow> Inl e | Inr ys \<Rightarrow> Inr (y # ys)))"

definition lift2 :: "('a \<Rightarrow> 'a \<Rightarrow> 'a) \<Rightarrow> 'a option \<Rightarrow> 'a option \<Rightarrow> 'a option" where
  "lift2 f a b = (case a of None \<Rightarrow> None | Some x \<Rightarrow> (case b of None \<Rightarrow> None | Some y \<Rightarrow> Some (f x y)))"

definition fadd :: "f64 \<Rightarrow> f64 \<Rightarrow> f64" where "fadd = lift2 (+)"
definition fsub :: "f64 \<Rightarrow> f64 \<Rightarrow> f64" where "fsub = lift2 (-)"
definition fmul :: "f64 \<Rightarrow> f64 \<Rightarrow> f64" where "fmul = lift2 (*)"

definition fdiv :: "f64 \<Rightarrow> f64 \<Rightarrow> f64" where
  "fdiv a b = (case a of None \<Rightarrow> None
               | Some x \<Rightarrow> (case b of None \<Rightarrow> None
                            | Some y \<Rightarrow> if y = 0 then None else Some (x / y)))"

definition fneg :: "f64 \<Rightarrow> f64" where
  "fneg a = map_option uminus a"

definition fsquare :: "f64 \<Rightarrow> f64" where
  "fsquare a = fmul a a"

definition fsqrt :: "f64 \<Rightarrow> f64" where
  "fsqrt a = (case a of None \<Rightarrow> None | Some x \<Rightarrow> if x < 0 then None else Some (sqrt x))"

definition fsign :: "f64 \<Rightarrow> f64" where
  "fsign a = map_option sgn a"

definition fint :: "int \<Rightarrow> f64" where
  "fint i = Some (real_of_int i)"

definition fbool :: "bool \<Rightarrow> f64" where
  "fbool b = Some (if b then 1 else 0)"

definition cadd :: "c128 \<Rightarrow> c128 \<Rightarrow> c128" where "cadd = lift2 (+)"
definition csub :: "c128 \<Rightarrow> c128 \<Rightarrow> c128" where "csub = lift2 (-)"
definition cmul :: "c128 \<Rightarrow> c128 \<Rightarrow> c128" where "cmul = lift2 (*)"

definition cdiv :: "c128 \<Rightarrow> c128 \<Rightarrow> c128" where
  "cdiv a b = (case a of None \<Rightarrow> None
               | Some x \<Rightarrow> (case b of None \<Rightarrow> None
                            | Some y \<Rightarrow> if y = 0 then None else Some (x / y)))"

definition c_of_f :: "f64 \<Rightarrow> c128" where
  "c_of_f a = map_option complex_of_real a"

definition c_real :: "c128 \<Rightarrow> f64" where
  "c_real z = map_option Re z"

definition c_imag :: "c128 \<Rightarrow> f64" where
  "c_imag z = map_option Im z"

definition cint :: "int \<Rightarrow> c128" where
  "cint i = c_of_f (fint i)"

subsection \<open>Array access\<close>

text \<open>
  Indexing a numpy array with an integer: a negative index counts from the end, an index
  outside the array raises \<^verbatim>\<open>IndexError\<close>.
\<close>

definition np_get :: "'a list \<Rightarrow> int \<Rightarrow> error + 'a" where
  "np_get xs i =
     (let n = int (length xs) in
      if 0 \<le> i \<and> i < n then Inr (xs ! nat i)
      else if i < 0 \<and> - n \<le> i then Inr (xs ! nat (n + i))
      else Inl IndexError)"

text \<open>The entry \<^verbatim>\<open>a[i, c]\<close> of a matrix held as a list of rows.\<close>

definition np_get2 :: "'a list list \<Rightarrow> int \<Rightarrow> int \<Rightarrow> error + 'a" where
  "np_get2 a i c = bind_r (np_get a i) (\<lambda>row. np_get row c)"

subsection \<open>Column numbers of the solver's matrices\<close>

text \<open>
  The column numbers come from \<^verbatim>\<open>pypower.idx_brch\<close> and \<^verbatim>\<open>pypower.idx_bus\<close>.
  \<^verbatim>\<open>_switch_branches\<close> addresses the same columns by their numbers
  (0, 1, 8, 9 of a branch row; 7, 8, 9 of a bus row).
\<close>

definition F_BUS :: nat where "F_BUS = 0"
definition T_BUS :: nat where "T_BUS = 1"
definition BR_R :: nat where "BR_R = 2"
definition BR_X :: nat where "BR_X = 3"
definition BR_B :: nat where "BR_B = 4"
definition RATE_A :: nat where "RATE_A = 5"
definition TAP :: nat where "TAP = 8"
definition SHIFT :: nat where "SHIFT = 9"
definition BR_STATUS :: nat where "BR_STATUS = 10"
definition QT :: nat where "QT = 16"
definition BASE_KV :: nat where "BASE_KV = 9"


section \<open>The network tables and the solver's matrices\<close>

text \<open>
  One record per row of a pandas table.  A column that may hold NaN is an \<^typ>\<open>f64\<close>, the
  tap side is a string or null.  \<open>l_index\<close> is the row's label in the table's index.
\<close>

record bus_row =
  b_index :: int
  b_vn_kv :: f64

record line_row =
  l_index :: int
  l_from_bus :: int
  l_to_bus :: int
  l_length_km :: f64
  l_r_ohm_per_km :: f64
  l_x_ohm_per_km :: f64
  l_c_nf_per_km :: f64
  l_parallel :: int
  l_in_service :: bool
  l_max_loading_percent :: f64
  l_max_i_ka :: f64
  l_df :: f64

record trafo_row =
  t_index :: int
  t_hv_bus :: int
  t_lv_bus :: int
  t_sn_kva :: f64
  t_vn_hv_kv :: f64
  t_vn_lv_kv :: f64
  t_vsc_percent :: f64
  t_vscr_percent :: f64
  t_pfe_kw :: f64
  t_i0_percent :: f64
  t_shift_degree :: f64
  t_tp_side :: "string option"
  t_tp_mid :: f64
  t_tp_min :: f64
  t_tp_max :: f64
  t_tp_st_percent :: f64
  t_tp_st_degree :: f64
  t_tp_pos :: f64
  t_parallel :: int
  t_in_service :: bool
  t_max_loading_percent :: f64

text \<open>
  A transformer dataframe: its rows, and whether it has the two optional columns the code
  asks for with \<^verbatim>\<open>"tp_st_degree" in trafo_df\<close> and \<^verbatim>\<open>"max_loading_percent" in trafo\<close>.
  Without the column the row's field is not read.
\<close>

record trafo_df =
  df_rows :: "trafo_row list"
  df_has_tp_st_degree :: bool
  df_has_max_loading_percent :: bool

record trafo3w_row =
  t3_hv_bus :: int
  t3_mv_bus :: int
  t3_lv_bus :: int
  t3_ad_bus :: int
  t3_vn_hv_kv :: f64
  t3_vn_mv_kv :: f64
  t3_vn_lv_kv :: f64
  t3_sn_hv_kva :: f64
  t3_sn_mv_kva :: f64
  t3_sn_lv_kva :: f64
  t3_vsc_hv_percent :: f64
  t3_vsc_mv_percent :: f64
  t3_vsc_lv_percent :: f64
  t3_vscr_hv_percent :: f64
  t3_vscr_mv_percent :: f64
  t3_vscr_lv_percent :: f64
  t3_pfe_kw :: f64
  t3_i0_percent :: f64
  t3_shift_mv_degree :: f64
  t3_shift_lv_degree :: f64
  t3_tp_side :: "string option"
  t3_tp_pos :: f64
  t3_tp_mid :: f64
  t3_tp_max :: f64
  t3_tp_min :: f64
  t3_tp_st_percent :: f64
  t3_in_service :: bool
  t3_max_loading_percent :: f64

record impedance_row =
  i_from_bus :: int
  i_to_bus :: int
  i_sn_kva :: f64
  i_rft_pu :: f64
  i_xft_pu :: f64
  i_rtf_pu :: f64
  i_xtf_pu :: f64
  i_in_service :: bool

record xward_row =
  xw_bus :: int
  xw_ad_bus :: int
  xw_r_ohm :: f64
  xw_x_ohm :: f64

record switch_row =
  sw_bus :: int
  sw_element :: int
  sw_et :: string
  sw_closed :: bool

text \<open>
  The network.  \<open>n_bus_lookup\<close> is \<^verbatim>\<open>net["_pd2ppc_lookups"]["bus"]\<close>, an integer array
  indexed by the external bus id; \<open>n_is_line\<close>, \<open>n_is_bus\<close> and \<open>n_is_xward\<close> are
  \<^verbatim>\<open>net["_is_elems"]\<close>: the table of the lines in service, the index of the table of the
  buses in service, and the in-service flags of the extended wards.
\<close>

record net =
  n_bus :: "bus_row list"
  n_line :: "line_row list"
  n_line_has_max_loading_percent :: bool
  n_trafo :: trafo_df
  n_trafo3w :: "trafo3w_row list"
  n_impedance :: "impedance_row list"
  n_xward :: "xward_row list"
  n_switch :: "switch_row list"
  n_sn_kva :: f64
  n_f_hz :: f64
  n_bus_lookup :: "int list"
  n_is_line :: "line_row list"
  n_is_bus :: "int list"
  n_is_xward :: "bool list"

text \<open>
  The solver's case: the bus matrix (13 float columns) and the branch matrix
  (\<open>QT + 3\<close> complex columns), each a list of rows.
\<close>

record ppc =
  p_bus :: "f64 list list"
  p_branch :: "c128 list list"

text \<open>
  Modelled from the spec: \<^verbatim>\<open>get_values\<close> of \<^verbatim>\<open>pandapower.auxiliary\<close> is not among the
  sources.  The bus-lookup table maps an external bus id to the internal index, and the
  value is read from the given column of the bus matrix at that index:
  \<^verbatim>\<open>source[lookup[k]] for k in selection\<close>.
\<close>

definition get_values :: "'a list \<Rightarrow> int list \<Rightarrow> int list \<Rightarrow> error + 'a list" where
  "get_values source selection lookup =
     mapM_r (\<lambda>k. bind_r (np_get lookup k) (\<lambda>j. np_get source j)) selection"

text \<open>The column \<^verbatim>\<open>a[:, c]\<close>; a matrix narrower than \<open>c\<close> raises.\<close>

definition np_col :: "'a list list \<Rightarrow> nat \<Rightarrow> error + 'a list" where
  "np_col a c = mapM_r (\<lambda>row. if c < length row then Inr (row ! c) else Inl IndexError) a"

text \<open>\<^verbatim>\<open>net.bus.vn_kv.loc[label]\<close>: the first row with the label, \<^verbatim>\<open>KeyError\<close> without one.\<close>

fun bus_vn_kv_loc :: "bus_row list \<Rightarrow> int \<Rightarrow> error + f64" where
  "bus_vn_kv_loc [] k = Inl KeyError"
| "bus_vn_kv_loc (b # bs) k = (if b_index b = k then Inr (b_vn_kv b) else bus_vn_kv_loc bs k)"

section \<open>Lines\<close>

text \<open>
  \<^verbatim>\<open>baseR = np.square(kv) / sn_kva * 1e3\<close>, the expression \<^verbatim>\<open>_calc_line_parameter\<close>,
  \<^verbatim>\<open>_calc_y_from_dataframe\<close> and \<^verbatim>\<open>_calc_xward_parameter\<close> share.
\<close>

definition baseR_of :: "f64 \<Rightarrow> f64 \<Rightarrow> f64" where
  "baseR_of kv sn = fmul (fdiv (fsquare kv) sn) (Some 1000)"

text \<open>
  One row of the array \<open>t\<close> of \<^verbatim>\<open>_calc_line_parameter\<close>, from the row of the line table,
  its looked-up buses \<open>fb\<close>, \<open>tb\<close>, the base voltage \<open>kv\<close> of \<open>fb\<close> and the rating \<open>rate\<close>
  of column 6.
\<close>

definition line_values :: "f64 \<Rightarrow> f64 \<Rightarrow> line_row \<Rightarrow> int \<Rightarrow> int \<Rightarrow> f64 \<Rightarrow> f64 \<Rightarrow> c128 list" where
  "line_values sn f_hz l fb tb kv rate =
     (let baseR = baseR_of kv sn;
          len = l_length_km l;
          par = fint (l_parallel l)
      in [cint fb, cint tb,
          c_of_f (fdiv (fdiv (fmul (l_r_ohm_per_km l) len) baseR) par),
          c_of_f (fdiv (fdiv (fmul (l_x_ohm_per_km l) len) baseR) par),
          c_of_f (fmul (fmul (fmul (fmul (fmul (fmul (fmul (Some 2) f_hz) (Some pi))
                    (l_c_nf_per_km l)) (Some (1 / 10 ^ 9))) baseR) len) par),
          c_of_f (fbool (l_in_service l)),
          c_of_f rate])"

text \<open>
  Column 6 with \<^verbatim>\<open>copy_constraints_to_ppc\<close>:
  \<^verbatim>\<open>max_load / 100. * max_i_ka * df * parallel * vr\<close>, where \<open>max_load\<close> is 0 when the
  table has no such column and \<open>vr\<close> is the nominal voltage of the from-bus times \<open>sqrt 3\<close>.
\<close>

definition line_rate :: "bool \<Rightarrow> line_row \<Rightarrow> f64 \<Rightarrow> f64" where
  "line_rate has_max l vn =
     (let max_load = (if has_max then l_max_loading_percent l else Some 0);
          vr = fmul vn (Some (sqrt 3))
      in fmul (fmul (fmul (fmul (fdiv max_load (Some 100)) (l_max_i_ka l)) (l_df l))
                (fint (l_parallel l))) vr)"

fun map4 :: "('a \<Rightarrow> 'b \<Rightarrow> 'c \<Rightarrow> 'd \<Rightarrow> 'e) \<Rightarrow> 'a list \<Rightarrow> 'b list \<Rightarrow> 'c list \<Rightarrow> 'd list \<Rightarrow> 'e list" where
  "map4 f (a # as) (b # bs) (c # cs) (d # ds) = f a b c d # map4 f as bs cs ds"
| "map4 f _ _ _ _ = []"

definition calc_line_parameter :: "net \<Rightarrow> ppc \<Rightarrow> bool \<Rightarrow> error + c128 list list" where
  "calc_line_parameter net ppc copy_constraints_to_ppc =
     (let lines = n_line net in
      bind_r (mapM_r (\<lambda>l. np_get (n_bus_lookup net) (l_from_bus l)) lines) (\<lambda>fb.
      bind_r (mapM_r (\<lambda>l. np_get (n_bus_lookup net) (l_to_bus l)) lines) (\<lambda>tb.
      bind_r (mapM_r (\<lambda>b. np_get2 (p_bus ppc) b (int BASE_KV)) fb) (\<lambda>kv.
      bind_r (if copy_constraints_to_ppc
              then mapM_r (\<lambda>l. bind_r (bus_vn_kv_loc (n_bus net) (l_from_bus l))
                     (\<lambda>vn. Inr (line_rate (n_line_has_max_loading_percent net) l vn))) lines
              else Inr (map (\<lambda>l. Some 0) lines)) (\<lambda>rate.
      Inr (map4 (\<lambda>l (fb, tb) kv rate. line_values (n_sn_kva net) (n_f_hz net) l fb tb kv rate)
             lines (zip fb tb) kv rate))))))"


section \<open>Two-winding transformers\<close>

definition isfinite :: "f64 \<Rightarrow> bool" where
  "isfinite a = (a \<noteq> None)"

text \<open>
  \<^verbatim>\<open>_calc_tap_from_dataframe\<close>, for one row.  The masks \<open>tap_os\<close> and \<open>tap_us\<close> select the
  rows with a finite tap position whose tap side is \<^verbatim>\<open>"hv"\<close>, respectively \<^verbatim>\<open>"lv"\<close>; the
  masked updates change the selected rows only, so that the guards \<^verbatim>\<open>if any(tap_os)\<close>
  and \<^verbatim>\<open>if any(tap_us)\<close> do not show in a single row.
\<close>

definition calc_tap_row :: "bool \<Rightarrow> bool \<Rightarrow> trafo_row \<Rightarrow> f64 \<times> f64 \<times> f64" where
  "calc_tap_row calculate_voltage_angles has_tp_st_degree r =
     (let trafo_shift = (if calculate_voltage_angles then t_shift_degree r else Some 0);
          vnh = t_vn_hv_kv r;
          vnl = t_vn_lv_kv r;
          tp_diff = fsub (t_tp_pos r) (t_tp_mid r);
          tap_os = (isfinite (t_tp_pos r) \<and> t_tp_side r = Some ''hv'');
          vnh = (if tap_os
                 then fmul vnh (fadd (Some 1) (fdiv (fmul tp_diff (t_tp_st_percent r)) (Some 100)))
                 else vnh);
          trafo_shift = (if tap_os \<and> calculate_voltage_angles \<and> has_tp_st_degree
                            \<and> isfinite (t_tp_st_degree r)
                         then fadd trafo_shift (fmul tp_diff (t_tp_st_degree r))
                         else trafo_shift);
          tap_us = (isfinite (t_tp_pos r) \<and> t_tp_side r = Some ''lv'');
          vnl = (if tap_us
                 then fmul vnl (fadd (Some 1) (fdiv (fmul tp_diff (t_tp_st_percent r)) (Some 100)))
                 else vnl);
          trafo_shift = (if tap_us \<and> calculate_voltage_angles \<and> has_tp_st_degree
                            \<and> isfinite (t_tp_st_degree r)
                         then fsub trafo_shift (fmul tp_diff (t_tp_st_degree r))
                         else trafo_shift)
      in (vnh, vnl, trafo_shift))"

text \<open>The three arrays \<open>vnh\<close>, \<open>vnl\<close>, \<open>trafo_shift\<close> the function returns.\<close>

definition calc_tap_from_dataframe :: "trafo_df \<Rightarrow> f64 list \<Rightarrow> bool \<Rightarrow> f64 list \<times> f64 list \<times> f64 list" where
  "calc_tap_from_dataframe trafo_df vn_lv calculate_voltage_angles =
     (let rs = map (calc_tap_row calculate_voltage_angles (df_has_tp_st_degree trafo_df))
                 (df_rows trafo_df)
      in (map fst rs, map (\<lambda>t. fst (snd t)) rs, map (\<lambda>t. snd (snd t)) rs))"

text \<open>
  \<^verbatim>\<open>_calc_y_from_dataframe\<close>.  The arrays \<open>vn_lv\<close> and \<open>vn_trafo_lv\<close> have one entry for
  each row of the dataframe: the only caller computes both from its columns.
  \<open>y_from_row\<close> is the value of \<open>y\<close> before the test for a tap on the low side.
\<close>

definition y_from_row :: "f64 \<Rightarrow> trafo_row \<Rightarrow> f64 \<Rightarrow> c128" where
  "y_from_row sn_kva r vn_lv =
     (let baseR = baseR_of vn_lv sn_kva;
          vnl_squared = fsquare (t_vn_lv_kv r);
          b_real = fmul (fdiv (t_pfe_kw r) (fmul (Some 1000) vnl_squared)) baseR;
          i0 = t_i0_percent r;
          pfe = t_pfe_kw r;
          sn = t_sn_kva r;
          b_img = fsub (fsquare (fdiv (fmul (fdiv i0 (Some 100)) sn) (Some 1000)))
                       (fsquare (fdiv pfe (Some 1000)));
          b_img = (case b_img of Some v \<Rightarrow> if v < 0 then Some 0 else Some v | None \<Rightarrow> None);
          b_img = fdiv (fmul (fsqrt b_img) baseR) vnl_squared
      in csub (cmul (c_of_f (fneg b_real)) (Some \<i>)) (c_of_f (fmul b_img (fsign i0))))"

definition y_lv_divisor :: "trafo_row \<Rightarrow> f64 \<Rightarrow> f64 \<Rightarrow> f64" where
  "y_lv_divisor r vn_lv vn_trafo_lv =
     fsquare (fdiv (fdiv (fmul vn_trafo_lv vn_lv) (t_vn_lv_kv r)) vn_lv)"

fun map3 :: "('a \<Rightarrow> 'b \<Rightarrow> 'c \<Rightarrow> 'd) \<Rightarrow> 'a list \<Rightarrow> 'b list \<Rightarrow> 'c list \<Rightarrow> 'd list" where
  "map3 f (a # as) (b # bs) (c # cs) = f a b c # map3 f as bs cs"
| "map3 f _ _ _ = []"

definition calc_y_from_dataframe :: "trafo_df \<Rightarrow> f64 list \<Rightarrow> f64 list \<Rightarrow> f64 \<Rightarrow> c128 list" where
  "calc_y_from_dataframe trafo_df vn_lv vn_trafo_lv sn_kva =
     (let y = map2 (y_from_row sn_kva) (df_rows trafo_df) vn_lv in
      if Some ''lv'' \<in> set (map t_tp_side (df_rows trafo_df))
      then map3 (\<lambda>y r (vl, vtl). cdiv y (c_of_f (y_lv_divisor r vl vtl)))
             y (df_rows trafo_df) (zip vn_lv vn_trafo_lv)
      else y)"

text \<open>\<^verbatim>\<open>_calc_r_x_from_dataframe\<close>: the pair \<open>(r_sc, x_sc)\<close> of one row.\<close>

definition r_x_from_row :: "f64 \<Rightarrow> trafo_row \<Rightarrow> f64 \<Rightarrow> f64 \<Rightarrow> f64 \<times> f64" where
  "r_x_from_row sn_kva r vn_lv vn_trafo_lv =
     (let tap_lv = fmul (fmul (fsquare (fdiv vn_trafo_lv vn_lv)) sn_kva) (Some (1 / 1000));
          z_sc = fmul (fmul (fdiv (fdiv (t_vsc_percent r) (Some 100)) (t_sn_kva r)) (Some 1000)) tap_lv;
          r_sc = fmul (fmul (fdiv (fdiv (t_vscr_percent r) (Some 100)) (t_sn_kva r)) (Some 1000)) tap_lv;
          x_sc = fsqrt (fsub (fsquare z_sc) (fsquare r_sc))
      in (r_sc, x_sc))"

definition calc_r_x_from_dataframe :: "trafo_df \<Rightarrow> f64 list \<Rightarrow> f64 list \<Rightarrow> f64 \<Rightarrow> f64 list \<times> f64 list" where
  "calc_r_x_from_dataframe trafo_df vn_lv vn_trafo_lv sn_kva =
     (let rx = map3 (r_x_from_row sn_kva) (df_rows trafo_df) vn_lv vn_trafo_lv
      in (map fst rx, map snd rx))"

text \<open>
  \<^verbatim>\<open>_wye_delta\<close> changes the rows with \<^verbatim>\<open>y != 0\<close>; a \<open>y\<close> that is not a number differs
  from 0.
\<close>

definition wye_delta_row :: "f64 \<Rightarrow> f64 \<Rightarrow> c128 \<Rightarrow> f64 \<times> f64 \<times> c128" where
  "wye_delta_row r x y =
     (if y = Some 0 then (r, x, y)
      else
        let za_star = cdiv (cadd (c_of_f r) (cmul (c_of_f x) (Some \<i>))) (Some 2);
            zc_star = cdiv (Some (- \<i>)) y;
            zSum_triangle = cadd (cmul za_star za_star) (cmul (cmul (Some 2) za_star) zc_star);
            zab_triangle = cdiv zSum_triangle zc_star;
            zbc_triangle = cdiv zSum_triangle za_star
        in (c_real zab_triangle, c_imag zab_triangle, cdiv (Some (- 2 * \<i>)) zbc_triangle))"

definition wye_delta :: "f64 list \<Rightarrow> f64 list \<Rightarrow> c128 list \<Rightarrow> f64 list \<times> f64 list \<times> c128 list" where
  "wye_delta r x y =
     (let rs = map3 wye_delta_row r x y
      in (map fst rs, map (\<lambda>t. fst (snd t)) rs, map (\<lambda>t. snd (snd t)) rs))"

definition calc_r_x_y_from_dataframe ::
  "trafo_df \<Rightarrow> f64 list \<Rightarrow> f64 list \<Rightarrow> string \<Rightarrow> f64 \<Rightarrow> error + (f64 list \<times> f64 list \<times> c128 list)" where
  "calc_r_x_y_from_dataframe trafo_df vn_trafo_lv vn_lv trafo_model sn_kva =
     (let y = calc_y_from_dataframe trafo_df vn_lv vn_trafo_lv sn_kva;
          (r, x) = calc_r_x_from_dataframe trafo_df vn_lv vn_trafo_lv sn_kva
      in if trafo_model = ''pi'' then Inr (r, x, y)
         else if trafo_model = ''t'' then Inr (wye_delta r x y)
         else Inl (UnknownTransformerModel trafo_model))"

definition calc_nominal_ratio_from_dataframe ::
  "ppc \<Rightarrow> trafo_df \<Rightarrow> f64 list \<Rightarrow> f64 list \<Rightarrow> int list \<Rightarrow> error + f64 list" where
  "calc_nominal_ratio_from_dataframe ppc trafo_df vn_hv_kv vn_lv_kv bus_lookup =
     (let tap_rat = map2 fdiv vn_hv_kv vn_lv_kv in
      bind_r (np_col (p_bus ppc) BASE_KV) (\<lambda>base_kv.
      bind_r (get_values base_kv (map t_hv_bus (df_rows trafo_df)) bus_lookup) (\<lambda>kv_hv.
      bind_r (np_col (p_bus ppc) BASE_KV) (\<lambda>base_kv.
      bind_r (get_values base_kv (map t_lv_bus (df_rows trafo_df)) bus_lookup) (\<lambda>kv_lv.
      Inr (map2 fdiv tap_rat (map2 fdiv kv_hv kv_lv)))))))"

text \<open>
  \<^verbatim>\<open>_calc_branch_values_from_trafo_df\<close>: the rows \<open>[r, x, y, tap, shift]\<close> of \<open>temp_para\<close>.
\<close>

fun map5 :: "('a \<Rightarrow> 'b \<Rightarrow> 'c \<Rightarrow> 'd \<Rightarrow> 'e \<Rightarrow> 'f) \<Rightarrow> 'a list \<Rightarrow> 'b list \<Rightarrow> 'c list \<Rightarrow> 'd list \<Rightarrow> 'e list \<Rightarrow> 'f list" where
  "map5 f (a # as) (b # bs) (c # cs) (d # ds) (e # es) = f a b c d e # map5 f as bs cs ds es"
| "map5 f _ _ _ _ _ = []"

definition calc_branch_values_from_trafo_df ::
  "net \<Rightarrow> ppc \<Rightarrow> string \<Rightarrow> bool \<Rightarrow> trafo_df \<Rightarrow> error + c128 list list" where
  "calc_branch_values_from_trafo_df net ppc trafo_model calculate_voltage_angles trafo_df =
     (let bus_lookup = n_bus_lookup net;
          parallel = map (\<lambda>r. fint (t_parallel r)) (df_rows trafo_df) in
      bind_r (np_col (p_bus ppc) BASE_KV) (\<lambda>base_kv.
      bind_r (get_values base_kv (map t_lv_bus (df_rows trafo_df)) bus_lookup) (\<lambda>vn_lv.
      let (vn_trafo_hv, vn_trafo_lv, shift) =
            calc_tap_from_dataframe trafo_df vn_lv calculate_voltage_angles in
      bind_r (calc_r_x_y_from_dataframe trafo_df vn_trafo_lv vn_lv trafo_model (n_sn_kva net))
        (\<lambda>(r, x, y).
      bind_r (calc_nominal_ratio_from_dataframe ppc trafo_df vn_trafo_hv vn_trafo_lv bus_lookup)
        (\<lambda>ratio.
      Inr (map5 (\<lambda>(r, x) y p ratio shift.
                   [c_of_f (fdiv r p), c_of_f (fdiv x p), cmul y (c_of_f p),
                    c_of_f ratio, c_of_f shift])
             (zip r x) y parallel ratio shift))))))"

text \<open>
  \<^verbatim>\<open>_calc_trafo_parameter\<close>: the nine columns hv bus, lv bus, r, x, y, tap, shift,
  in-service flag and rating of each row.
\<close>

definition trafo_rate :: "bool \<Rightarrow> bool \<Rightarrow> trafo_row \<Rightarrow> f64" where
  "trafo_rate copy_constraints_to_ppc has_max r =
     (if copy_constraints_to_ppc
      then let max_load = (if has_max then t_max_loading_percent r else Some 0)
           in fmul (fdiv (fmul (fdiv max_load (Some 100)) (t_sn_kva r)) (Some 1000))
                (fint (t_parallel r))
      else Some 0)"

definition calc_trafo_parameter :: "net \<Rightarrow> ppc \<Rightarrow> bool \<Rightarrow> string \<Rightarrow> bool \<Rightarrow> error + c128 list list" where
  "calc_trafo_parameter net ppc calculate_voltage_angles trafo_model copy_constraints_to_ppc =
     (let trafo = n_trafo net in
      bind_r (mapM_r (\<lambda>r. np_get (n_bus_lookup net) (t_hv_bus r)) (df_rows trafo)) (\<lambda>hv.
      bind_r (mapM_r (\<lambda>r. np_get (n_bus_lookup net) (t_lv_bus r)) (df_rows trafo)) (\<lambda>lv.
      bind_r (calc_branch_values_from_trafo_df net ppc trafo_model calculate_voltage_angles trafo)
        (\<lambda>vals.
      Inr (map3 (\<lambda>r (hv, lv) v.
                   [cint hv, cint lv] @ v @
                   [c_of_f (fbool (t_in_service r)),
                    c_of_f (trafo_rate copy_constraints_to_ppc (df_has_max_loading_percent trafo) r)])
             (df_rows trafo) (zip hv lv) vals)))))"

section \<open>Example network\<close>

text \<open>
  A small network for evaluating the functions: four buses with the identity lookup, the
  line of the specification's example (0.1 and 0.2 Ohm/km, 10 nF/km, 5 km on a 20 kV bus,
  a base of 1 MVA, 50 Hz).
\<close>

definition ex_bus_row :: "real \<Rightarrow> real \<Rightarrow> real \<Rightarrow> real \<Rightarrow> f64 list" where
  "ex_bus_row i vm va base_kv =
     [Some i, Some 1, Some 0, Some 0, Some 0, Some 0, Some 1, Some vm, Some va, Some base_kv,
      Some 1, Some (11 / 10), Some (9 / 10)]"

definition ex_line :: line_row where
  "ex_line = \<lparr>l_index = 0, l_from_bus = 0, l_to_bus = 1, l_length_km = Some 5,
     l_r_ohm_per_km = Some (1 / 10), l_x_ohm_per_km = Some (2 / 10), l_c_nf_per_km = Some 10,
     l_parallel = 1, l_in_service = True, l_max_loading_percent = Some 100,
     l_max_i_ka = Some 1, l_df = Some 1\<rparr>"

definition ex_net :: net where
  "ex_net = \<lparr>n_bus = [\<lparr>b_index = 0, b_vn_kv = Some 20\<rparr>, \<lparr>b_index = 1, b_vn_kv = Some 20\<rparr>,
               \<lparr>b_index = 2, b_vn_kv = Some 10\<rparr>, \<lparr>b_index = 3, b_vn_kv = Some 20\<rparr>],
     n_line = [ex_line], n_line_has_max_loading_percent = True,
     n_trafo = \<lparr>df_rows = [], df_has_tp_st_degree = True, df_has_max_loading_percent = True\<rparr>,
     n_trafo3w = [], n_impedance = [], n_xward = [], n_switch = [],
     n_sn_kva = Some 1000, n_f_hz = Some 50, n_bus_lookup = [0, 1, 2, 3],
     n_is_line = [ex_line], n_is_bus = [0, 1, 2, 3], n_is_xward = []\<rparr>"

definition ex_ppc :: ppc where
  "ex_ppc = \<lparr>p_bus = [ex_bus_row 0 1 0 20, ex_bus_row 1 (9 / 10) 5 20,
                       ex_bus_row 2 (8 / 10) 7 10, ex_bus_row 3 (7 / 10) 9 20],
             p_branch = []\<rparr>"

text \<open>
  A 20/10 kV transformer of 1000 kVA between the buses 1 and 2, with its tap changer on
  the high side two steps above the neutral position, and the same transformer with the
  tap changer on the low side.
\<close>

definition ex_trafo :: trafo_row where
  "ex_trafo = \<lparr>t_index = 0, t_hv_bus = 1, t_lv_bus = 2, t_sn_kva = Some 1000,
     t_vn_hv_kv = Some 20, t_vn_lv_kv = Some 10, t_vsc_percent = Some 5,
     t_vscr_percent = Some 3, t_pfe_kw = Some 3, t_i0_percent = Some (1 / 2),
     t_shift_degree = Some 150, t_tp_side = Some ''hv'', t_tp_mid = Some 0,
     t_tp_min = Some (- 2), t_tp_max = Some 2, t_tp_st_percent = Some (5 / 2),
     t_tp_st_degree = Some 1, t_tp_pos = Some 2, t_parallel = 1, t_in_service = True,
     t_max_loading_percent = Some 100\<rparr>"

definition ex_trafo_df :: "trafo_row list \<Rightarrow> trafo_df" where
  "ex_trafo_df rs = \<lparr>df_rows = rs, df_has_tp_st_degree = True, df_has_max_loading_percent = True\<rparr>"

text \<open>
  The magnetizing admittance as section 4.2 of the specification words it, for comparison
  with \<open>y_from_row\<close>: the real part from the iron losses, the imaginary part from the
  no-load current, both stored negative.
\<close>

definition spec_y :: "real \<Rightarrow> real \<Rightarrow> real \<Rightarrow> real \<Rightarrow> real \<Rightarrow> complex" where
  "spec_y pfe_kw no_load_pct sn vlv_nom baseZ =
     Complex (- (pfe_kw / (1000 * vlv_nom\<^sup>2) * baseZ))
             (- (sqrt (max 0 ((no_load_pct / 100 * sn / 1000)\<^sup>2 - (pfe_kw / 1000)\<^sup>2))
                  * baseZ / vlv_nom\<^sup>2))"

section \<open>Three-winding transformers\<close>

text \<open>
  Python's \<^verbatim>\<open>min(a, b)\<close> returns \<open>b\<close> when \<^verbatim>\<open>b < a\<close> holds and \<open>a\<close> otherwise; a
  comparison with a value that is not a number is false.
\<close>

definition pymin :: "f64 \<Rightarrow> f64 \<Rightarrow> f64" where
  "pymin a b = (case (a, b) of (Some x, Some y) \<Rightarrow> if y < x then b else a | _ \<Rightarrow> a)"

text \<open>\<^verbatim>\<open>z_br_to_bus\<close> on the three-element arrays \<open>z\<close> and \<open>s\<close>.\<close>

definition z_br_to_bus :: "f64 \<times> f64 \<times> f64 \<Rightarrow> f64 \<times> f64 \<times> f64 \<Rightarrow> f64 \<times> f64 \<times> f64" where
  "z_br_to_bus z s =
     (case (z, s) of ((z0, z1, z2), (s0, s1, s2)) \<Rightarrow>
        let zbr_n0 = fmul s0 (fdiv z0 (pymin s0 s1));
            zbr_n1 = fmul s0 (fdiv z1 (pymin s1 s2));
            zbr_n2 = fmul s0 (fdiv z2 (pymin s0 s2));
            half = (\<lambda>sk. fdiv (fmul (Some (1 / 2)) sk) s0)
        in (fmul (half s0) (fsub (fadd zbr_n0 zbr_n2) zbr_n1),
            fmul (half s1) (fsub (fadd zbr_n1 zbr_n0) zbr_n2),
            fmul (half s2) (fsub (fadd zbr_n2 zbr_n1) zbr_n0)))"

text \<open>One of the three dictionaries of the list \<open>taps\<close>.\<close>

record tap_dict =
  tv_tp_pos :: f64
  tv_tp_mid :: f64
  tv_tp_max :: f64
  tv_tp_min :: f64
  tv_tp_st_percent :: f64
  tv_tp_side :: "string option"

definition nan_taps :: tap_dict where
  "nan_taps = \<lparr>tv_tp_pos = None, tv_tp_mid = None, tv_tp_max = None, tv_tp_min = None,
     tv_tp_st_percent = None, tv_tp_side = None\<rparr>"

text \<open>
  The part of the loop body that fills \<open>taps\<close>.  The variable \<open>tp_trafo\<close> is assigned in
  the branches for \<^verbatim>\<open>"hv"\<close> (0), \<^verbatim>\<open>"mv"\<close> (1) and \<^verbatim>\<open>"lv"\<close> (3) only, and keeps its
  value from one iteration of the loop to the next: with any other tap side it is read as
  an earlier row left it, and reading it before any assignment raises
  \<^verbatim>\<open>UnboundLocalError\<close>.  \<^verbatim>\<open>taps[tp_trafo]\<close> raises \<^verbatim>\<open>IndexError\<close> outside the three
  entries of the list.  The result is \<open>taps\<close> and the value of \<open>tp_trafo\<close> afterwards.
\<close>

definition trafo3w_taps :: "trafo3w_row \<Rightarrow> nat option \<Rightarrow> error + (tap_dict list \<times> nat option)" where
  "trafo3w_taps ttab tp_trafo =
     (let taps = replicate 3 nan_taps in
      case t3_tp_side ttab of
        None \<Rightarrow> Inr (taps, tp_trafo)
      | Some side \<Rightarrow>
          let tp_trafo = (if side = ''hv'' then Some 0
                          else if side = ''mv'' then Some 1
                          else if side = ''lv'' then Some 3
                          else tp_trafo)
          in (case tp_trafo of
                None \<Rightarrow> Inl UnboundLocalError
              | Some k \<Rightarrow>
                  if k < length taps
                  then Inr (taps[k := \<lparr>tv_tp_pos = t3_tp_pos ttab, tv_tp_mid = t3_tp_mid ttab,
                                        tv_tp_max = t3_tp_max ttab, tv_tp_min = t3_tp_min ttab,
                                        tv_tp_st_percent = t3_tp_st_percent ttab,
                                        tv_tp_side = Some (if k = 0 then ''hv'' else ''lv'')\<rparr>],
                            tp_trafo)
                  else Inl IndexError))"

text \<open>
  The three two-winding equivalents of one row: hv to star point, star point to mv, star
  point to lv.  The derived table has no column \<open>tp_st_degree\<close>; the row's label is the
  key under which the dictionary \<open>trafos2w\<close> holds it.
\<close>

definition trafo3w_leg ::
  "nat \<Rightarrow> trafo3w_row \<Rightarrow> tap_dict \<Rightarrow> int \<Rightarrow> int \<Rightarrow> f64 \<Rightarrow> f64 \<Rightarrow> f64 \<Rightarrow> f64 \<Rightarrow> f64 \<Rightarrow> f64 \<Rightarrow> f64
     \<Rightarrow> trafo_row" where
  "trafo3w_leg key ttab tap hv lv sn vn_lv vscr vsc pfe i0 shift =
     \<lparr>t_index = int key, t_hv_bus = hv, t_lv_bus = lv, t_sn_kva = sn,
      t_vn_hv_kv = t3_vn_hv_kv ttab, t_vn_lv_kv = vn_lv, t_vsc_percent = vsc,
      t_vscr_percent = vscr, t_pfe_kw = pfe, t_i0_percent = i0, t_shift_degree = shift,
      t_tp_side = tv_tp_side tap, t_tp_mid = tv_tp_mid tap, t_tp_min = tv_tp_min tap,
      t_tp_max = tv_tp_max tap, t_tp_st_percent = tv_tp_st_percent tap, t_tp_st_degree = None,
      t_tp_pos = tv_tp_pos tap, t_parallel = 1, t_in_service = t3_in_service ttab,
      t_max_loading_percent = t3_max_loading_percent ttab\<rparr>"

definition trafo3w_legs :: "nat \<Rightarrow> nat \<Rightarrow> trafo3w_row \<Rightarrow> tap_dict list \<Rightarrow> trafo_row \<times> trafo_row \<times> trafo_row" where
  "trafo3w_legs i nr_trafos ttab taps =
     (let uk = (t3_vsc_hv_percent ttab, t3_vsc_mv_percent ttab, t3_vsc_lv_percent ttab);
          ur = (t3_vscr_hv_percent ttab, t3_vscr_mv_percent ttab, t3_vscr_lv_percent ttab);
          sn = (t3_sn_hv_kva ttab, t3_sn_mv_kva ttab, t3_sn_lv_kva ttab);
          (uk0, uk1, uk2) = z_br_to_bus uk sn;
          (ur0, ur1, ur2) = z_br_to_bus ur sn
      in (trafo3w_leg i ttab (taps ! 0) (t3_hv_bus ttab) (t3_ad_bus ttab) (t3_sn_hv_kva ttab)
            (t3_vn_hv_kv ttab) ur0 uk0 (t3_pfe_kw ttab) (t3_i0_percent ttab) (Some 0),
          trafo3w_leg (i + nr_trafos) ttab (taps ! 1) (t3_ad_bus ttab) (t3_mv_bus ttab)
            (t3_sn_mv_kva ttab) (t3_vn_mv_kv ttab) ur1 uk1 (Some 0) (Some 0)
            (t3_shift_mv_degree ttab),
          trafo3w_leg (i + 2 * nr_trafos) ttab (taps ! 2) (t3_ad_bus ttab) (t3_lv_bus ttab)
            (t3_sn_lv_kva ttab) (t3_vn_lv_kv ttab) ur2 uk2 (Some 0) (Some 0)
            (t3_shift_lv_degree ttab)))"

text \<open>
  The loop over the rows of the table, with its state: the counter \<open>i\<close>, the variable
  \<open>tp_trafo\<close> and the dictionary \<open>trafos2w\<close>, an association list in the order of
  insertion.
\<close>

fun trafo3w_loop ::
  "nat \<Rightarrow> trafo3w_row list \<Rightarrow> nat \<Rightarrow> nat option \<Rightarrow> (nat \<times> trafo_row) list
     \<Rightarrow> error + (nat \<times> trafo_row) list" where
  "trafo3w_loop nr_trafos [] i tp_trafo trafos2w = Inr trafos2w"
| "trafo3w_loop nr_trafos (ttab # rest) i tp_trafo trafos2w =
     (case trafo3w_taps ttab tp_trafo of
        Inl e \<Rightarrow> Inl e
      | Inr (taps, tp_trafo) \<Rightarrow>
          (case trafo3w_legs i nr_trafos ttab taps of (hv_leg, mv_leg, lv_leg) \<Rightarrow>
             trafo3w_loop nr_trafos rest (i + 1) tp_trafo
               (AList.update (i + 2 * nr_trafos) lv_leg
                 (AList.update (i + nr_trafos) mv_leg
                   (AList.update i hv_leg trafos2w)))))"

text \<open>
  \<^verbatim>\<open>pd.DataFrame(trafos2w).T\<close>: one row for each key of the dictionary, in the order of
  the dictionary, which is the order in which the loop inserted the keys.  Without any row
  the dataframe has no column, and the conversion of the first column to numbers raises
  \<^verbatim>\<open>KeyError\<close>.
\<close>

definition trafo_df_from_trafo3w :: "net \<Rightarrow> error + trafo_df" where
  "trafo_df_from_trafo3w net =
     (let nr_trafos = length (n_trafo3w net) in
      bind_r (trafo3w_loop nr_trafos (n_trafo3w net) 0 None []) (\<lambda>trafos2w.
      if trafos2w = [] then Inl KeyError
      else Inr \<lparr>df_rows = map snd trafos2w, df_has_tp_st_degree = False,
                df_has_max_loading_percent = True\<rparr>))"

definition trafo3w_rate :: "bool \<Rightarrow> bool \<Rightarrow> trafo_row \<Rightarrow> f64" where
  "trafo3w_rate copy_constraints_to_ppc has_max r =
     (if copy_constraints_to_ppc
      then let max_load = (if has_max then t_max_loading_percent r else Some 0)
           in fdiv (fmul (fdiv max_load (Some 100)) (t_sn_kva r)) (Some 1000)
      else Some 0)"

definition calc_trafo3w_parameter :: "net \<Rightarrow> ppc \<Rightarrow> bool \<Rightarrow> string \<Rightarrow> bool \<Rightarrow> error + c128 list list" where
  "calc_trafo3w_parameter net ppc calculate_voltage_angles trafo_model copy_constraints_to_ppc =
     bind_r (trafo_df_from_trafo3w net) (\<lambda>trafo_df.
     bind_r (mapM_r (\<lambda>r. np_get (n_bus_lookup net) (t_hv_bus r)) (df_rows trafo_df)) (\<lambda>hv.
     bind_r (mapM_r (\<lambda>r. np_get (n_bus_lookup net) (t_lv_bus r)) (df_rows trafo_df)) (\<lambda>lv.
     bind_r (calc_branch_values_from_trafo_df net ppc trafo_model calculate_voltage_angles trafo_df)
       (\<lambda>vals.
     Inr (map3 (\<lambda>r (hv, lv) v.
                  [cint hv, cint lv] @ v @
                  [c_of_f (fbool (t_in_service r)),
                   c_of_f (trafo3w_rate copy_constraints_to_ppc
                             (df_has_max_loading_percent trafo_df) r)])
            (df_rows trafo_df) (zip hv lv) vals)))))"

section \<open>Impedances and extended wards\<close>

definition calc_impedance_parameter :: "net \<Rightarrow> error + c128 list list" where
  "calc_impedance_parameter net =
     (let sn_net = n_sn_kva net in
      bind_r (mapM_r (\<lambda>r. np_get (n_bus_lookup net) (i_from_bus r)) (n_impedance net)) (\<lambda>fb.
      bind_r (mapM_r (\<lambda>r. np_get (n_bus_lookup net) (i_to_bus r)) (n_impedance net)) (\<lambda>tb.
      Inr (map2 (\<lambda>r (fb, tb).
                  [cint fb, cint tb,
                   c_of_f (fmul (fdiv (i_rft_pu r) (i_sn_kva r)) sn_net),
                   c_of_f (fmul (fdiv (i_xft_pu r) (i_sn_kva r)) sn_net),
                   c_of_f (fmul (fdiv (fsub (i_rtf_pu r) (i_rft_pu r)) (i_sn_kva r)) sn_net),
                   c_of_f (fmul (fdiv (fsub (i_xtf_pu r) (i_xft_pu r)) (i_sn_kva r)) sn_net),
                   c_of_f (fbool (i_in_service r))])
             (n_impedance net) (zip fb tb)))))"

text \<open>
  \<^verbatim>\<open>t[:, 4] = xw_is\<close> takes one flag for each extended ward, or a single flag for all of
  them; another number of flags cannot be broadcast.
\<close>

definition calc_xward_parameter :: "net \<Rightarrow> ppc \<Rightarrow> error + c128 list list" where
  "calc_xward_parameter net ppc =
     (let xward = n_xward net in
      bind_r (np_col (p_bus ppc) BASE_KV) (\<lambda>base_kv.
      bind_r (get_values base_kv (map xw_bus xward) (n_bus_lookup net)) (\<lambda>kv.
      bind_r (mapM_r (\<lambda>r. np_get (n_bus_lookup net) (xw_bus r)) xward) (\<lambda>b.
      bind_r (mapM_r (\<lambda>r. np_get (n_bus_lookup net) (xw_ad_bus r)) xward) (\<lambda>ad.
      bind_r (if length (n_is_xward net) = length xward then Inr (n_is_xward net)
              else if length (n_is_xward net) = 1
              then Inr (replicate (length xward) (hd (n_is_xward net)))
              else Inl BroadcastError) (\<lambda>xw_is.
      Inr (map4 (\<lambda>r (b, ad) kv is.
                  let baseR = baseR_of kv (n_sn_kva net)
                  in [cint b, cint ad, c_of_f (fdiv (xw_r_ohm r) baseR),
                      c_of_f (fdiv (xw_x_ohm r) baseR), c_of_f (fbool is)])
             xward (zip b ad) kv xw_is)))))))"

section \<open>Assembling the branch matrix\<close>

text \<open>
  The assignment \<^verbatim>\<open>a[lo:hi, cols] = v\<close>.  The slice is cut to the rows the matrix has; a
  column outside the matrix raises \<^verbatim>\<open>IndexError\<close>; the value must have one entry for
  each column of \<open>cols\<close> in every row, and as many rows as the slice or a single row;
  otherwise numpy raises the \<^verbatim>\<open>ValueError\<close> of a shape mismatch.
\<close>

definition set_cols :: "'a list \<Rightarrow> nat list \<Rightarrow> 'a list \<Rightarrow> 'a list" where
  "set_cols row cols vals = fold (\<lambda>(c, x) r. r[c := x]) (zip cols vals) row"

definition np_assign ::
  "'a list list \<Rightarrow> nat \<Rightarrow> nat \<Rightarrow> nat list \<Rightarrow> 'a list list \<Rightarrow> error + 'a list list" where
  "np_assign a lo hi cols v =
     (let n = length a; lo = min lo n; hi = max lo (min hi n); m = hi - lo in
      if \<exists>row \<in> set a. \<exists>c \<in> set cols. length row \<le> c then Inl IndexError
      else if (\<exists>row \<in> set v. length row \<noteq> length cols) \<or> \<not> (length v = m \<or> length v = 1)
      then Inl BroadcastError
      else Inr (take lo a
                @ map2 (\<lambda>row vals. set_cols row cols vals) (take m (drop lo a))
                    (if length v = m then v else replicate m (hd v))
                @ drop hi a))"

definition default_branch_row :: "c128 list" where
  "default_branch_row =
     map Some [0, 0, 0, 0, 0, 250, 250, 250, 1, 0, 1, - 360, 360] @ replicate (QT + 3 - 13) (Some 0)"

text \<open>
  One step of the assembly: when the element type has rows (\<open>c\<close>), its parameters \<open>t\<close> are
  computed and assigned to the columns \<open>cols\<close> of the rows \<open>lo\<close> to \<open>hi\<close> of the branch
  matrix; otherwise the step is skipped.
\<close>

definition fill_rows ::
  "bool \<Rightarrow> error + c128 list list \<Rightarrow> nat \<Rightarrow> nat \<Rightarrow> nat list \<Rightarrow> ppc \<Rightarrow> error + ppc" where
  "fill_rows c t lo hi cols ppc =
     (if c
      then bind_r t (\<lambda>t. bind_r (np_assign (p_branch ppc) lo hi cols t)
                           (\<lambda>b. Inr (ppc\<lparr>p_branch := b\<rparr>)))
      else Inr ppc)"

definition build_branch_ppc :: "net \<Rightarrow> ppc \<Rightarrow> bool \<Rightarrow> string \<Rightarrow> bool \<Rightarrow> error + ppc" where
  "build_branch_ppc net ppc calculate_voltage_angles trafo_model copy_constraints_to_ppc =
     (let line_end = length (n_line net);
          trafo_end = line_end + length (df_rows (n_trafo net));
          trafo3w_end = trafo_end + length (n_trafo3w net) * 3;
          impedance_end = trafo3w_end + length (n_impedance net);
          xward_end = impedance_end + length (n_xward net);
          ppc = ppc\<lparr>p_branch := replicate xward_end default_branch_row\<rparr> in
      bind_r (fill_rows (line_end > 0)
                (calc_line_parameter net ppc copy_constraints_to_ppc)
                0 line_end [F_BUS, T_BUS, BR_R, BR_X, BR_B, BR_STATUS, RATE_A] ppc) (\<lambda>ppc.
      bind_r (fill_rows (trafo_end > line_end)
                (calc_trafo_parameter net ppc calculate_voltage_angles trafo_model
                   copy_constraints_to_ppc)
                line_end trafo_end
                [F_BUS, T_BUS, BR_R, BR_X, BR_B, TAP, SHIFT, BR_STATUS, RATE_A] ppc) (\<lambda>ppc.
      bind_r (fill_rows (trafo3w_end > trafo_end)
                (calc_trafo3w_parameter net ppc calculate_voltage_angles trafo_model
                   copy_constraints_to_ppc)
                trafo_end trafo3w_end
                [F_BUS, T_BUS, BR_R, BR_X, BR_B, TAP, SHIFT, BR_STATUS, RATE_A] ppc) (\<lambda>ppc.
      bind_r (fill_rows (impedance_end > trafo3w_end)
                (calc_impedance_parameter net)
                trafo3w_end impedance_end [F_BUS, T_BUS, BR_R, BR_X, 17, 18, BR_STATUS] ppc)
        (\<lambda>ppc.
      fill_rows (xward_end > impedance_end)
        (calc_xward_parameter net ppc)
        impedance_end xward_end [F_BUS, T_BUS, BR_R, BR_X, BR_STATUS] ppc)))))"

text \<open>
  \<^verbatim>\<open>_update_trafo_trafo3w_ppc\<close>.  The three-winding rows are assigned to eight columns
  (the list ends with \<^verbatim>\<open>BR_STATUS\<close>), and \<^verbatim>\<open>_calc_trafo3w_parameter\<close> is called without
  \<^verbatim>\<open>copy_constraints_to_ppc\<close>, whose default is \<^verbatim>\<open>False\<close>.
\<close>

definition update_trafo_trafo3w_ppc :: "net \<Rightarrow> ppc \<Rightarrow> bool \<Rightarrow> string \<Rightarrow> bool \<Rightarrow> error + ppc" where
  "update_trafo_trafo3w_ppc net ppc calculate_voltage_angles trafo_model copy_constraints_to_ppc =
     (let line_end = length (n_line net);
          trafo_end = line_end + length (df_rows (n_trafo net));
          trafo3w_end = trafo_end + length (n_trafo3w net) * 3 in
      bind_r (fill_rows (trafo_end > line_end)
                (calc_trafo_parameter net ppc calculate_voltage_angles trafo_model
                   copy_constraints_to_ppc)
                line_end trafo_end
                [F_BUS, T_BUS, BR_R, BR_X, BR_B, TAP, SHIFT, BR_STATUS, RATE_A] ppc) (\<lambda>ppc.
      fill_rows (trafo3w_end > trafo_end)
        (calc_trafo3w_parameter net ppc calculate_voltage_angles trafo_model False)
        trafo_end trafo3w_end [F_BUS, T_BUS, BR_R, BR_X, BR_B, TAP, SHIFT, BR_STATUS] ppc))"

text \<open>
  A three-winding transformer between the buses 0 (hv), 1 (mv) and 2 (lv) with the star
  point at bus 3, without a tap changer, and a second one between the buses 1, 2 and 0.
\<close>

definition ex_trafo3w :: trafo3w_row where
  "ex_trafo3w = \<lparr>t3_hv_bus = 0, t3_mv_bus = 1, t3_lv_bus = 2, t3_ad_bus = 3,
     t3_vn_hv_kv = Some 20, t3_vn_mv_kv = Some 20, t3_vn_lv_kv = Some 10,
     t3_sn_hv_kva = Some 1000, t3_sn_mv_kva = Some 1000, t3_sn_lv_kva = Some 1000,
     t3_vsc_hv_percent = Some 10, t3_vsc_mv_percent = Some 10, t3_vsc_lv_percent = Some 10,
     t3_vscr_hv_percent = Some 6, t3_vscr_mv_percent = Some 6, t3_vscr_lv_percent = Some 6,
     t3_pfe_kw = Some 0, t3_i0_percent = Some 0, t3_shift_mv_degree = Some 0,
     t3_shift_lv_degree = Some 0, t3_tp_side = None, t3_tp_pos = None, t3_tp_mid = None,
     t3_tp_max = None, t3_tp_min = None, t3_tp_st_percent = None, t3_in_service = True,
     t3_max_loading_percent = Some 100\<rparr>"

definition ex_trafo3w' :: trafo3w_row where
  "ex_trafo3w' = ex_trafo3w\<lparr>t3_hv_bus := 1, t3_mv_bus := 2, t3_lv_bus := 0\<rparr>"


text \<open>The example network with the two three-winding transformers.\<close>

definition ex_net3 :: net where
  "ex_net3 = ex_net\<lparr>n_trafo3w := [ex_trafo3w, ex_trafo3w']\<rparr>"

section \<open>Switches\<close>

text \<open>
  The position of a label in the index of a table, with the row: \<^verbatim>\<open>index.get_loc\<close> and
  \<^verbatim>\<open>.at[label]\<close>, which raise \<^verbatim>\<open>KeyError\<close> for a label the index does not have.
\<close>

fun index_loc :: "('r \<Rightarrow> int) \<Rightarrow> 'r list \<Rightarrow> int \<Rightarrow> (nat \<times> 'r) option" where
  "index_loc idx [] k = None"
| "index_loc idx (r # rs) k =
     (if idx r = k then Some (0, r)
      else map_option (\<lambda>(p, r'). (Suc p, r')) (index_loc idx rs k))"

text \<open>
  \<^verbatim>\<open>_gather_branch_switch_info\<close>: whether the switch is at the to-bus (lv bus) of its
  branch, the bus of the switch, and the position of the branch in its table.
\<close>

definition gather_branch_switch_info :: "int \<Rightarrow> int \<Rightarrow> string \<Rightarrow> net \<Rightarrow> error + (bool \<times> int \<times> nat)" where
  "gather_branch_switch_info bus branch_id branch_type net =
     (if branch_type = ''l''
      then (case index_loc l_index (n_line net) branch_id of
              None \<Rightarrow> Inl KeyError
            | Some (pos, row) \<Rightarrow> Inr (l_to_bus row = bus, bus, pos))
      else (case index_loc t_index (df_rows (n_trafo net)) branch_id of
              None \<Rightarrow> Inl KeyError
            | Some (pos, row) \<Rightarrow> Inr (t_lv_bus row = bus, bus, pos)))"

text \<open>
  \<open>sw_elem[~m]\<close>: the mask \<open>m\<close> marks the first occurrence of every element, so the
  selection holds, in order, every later occurrence.  \<open>seen\<close> are the elements met so far.
\<close>

fun dup_elems :: "int list \<Rightarrow> int list \<Rightarrow> int list" where
  "dup_elems seen [] = []"
| "dup_elems seen (x # xs) =
     (if x \<in> set seen then x # dup_elems seen xs else dup_elems (x # seen) xs)"

text \<open>
  \<^verbatim>\<open>lines_is.ix[labels].from_bus\<close> with the rows that are not a number removed: \<^verbatim>\<open>.ix\<close>
  gives a row of NaN for a label the table of the lines in service does not have.
\<close>

definition ix_column :: "line_row list \<Rightarrow> (line_row \<Rightarrow> int) \<Rightarrow> int list \<Rightarrow> int list" where
  "ix_column lines_is col labels =
     List.map_filter (\<lambda>e. map_option col (find (\<lambda>l. l_index l = e) lines_is)) labels"

text \<open>\<^verbatim>\<open>lines_is.drop(labels)\<close> raises when a label is not in the index.\<close>

definition drop_labels :: "line_row list \<Rightarrow> int list \<Rightarrow> error + line_row list" where
  "drop_labels lines_is labels =
     (if set labels \<subseteq> l_index ` set lines_is
      then Inr (filter (\<lambda>l. l_index l \<notin> set labels) lines_is)
      else Inl LabelNotFound)"

text \<open>\<^verbatim>\<open>np.in1d\<close> for one entry of the branch matrix and an array of bus numbers.\<close>

definition in1d :: "c128 \<Rightarrow> int list \<Rightarrow> bool" where
  "in1d a xs = (a \<in> cint ` set xs)"

text \<open>
  The lines with more than one open switch: every branch whose from-bus is the from-bus
  of such a line in service and whose to-bus is the to-bus of such a line is set out of
  service, and the lines are dropped from the lines in service.
\<close>

definition isolate_lines :: "net \<Rightarrow> ppc \<Rightarrow> line_row list \<Rightarrow> int list \<Rightarrow> error + (ppc \<times> line_row list)" where
  "isolate_lines net ppc lines_is dup =
     (let from_bus = ix_column lines_is l_from_bus dup;
          to_bus = ix_column lines_is l_to_bus dup
      in if from_bus \<noteq> [] \<and> to_bus \<noteq> []
         then
           bind_r (mapM_r (np_get (n_bus_lookup net)) from_bus) (\<lambda>ppc_from.
           bind_r (mapM_r (np_get (n_bus_lookup net)) to_bus) (\<lambda>ppc_to.
           bind_r (np_col (p_branch ppc) 0) (\<lambda>c0.
           bind_r (np_col (p_branch ppc) 1) (\<lambda>c1.
           let ppc_idx = map2 (\<lambda>a b. in1d a ppc_from \<and> in1d b ppc_to) c0 c1 in
           bind_r (if \<exists>row \<in> set (p_branch ppc). length row \<le> BR_STATUS then Inl IndexError
                   else Inr (map2 (\<lambda>row sel. if sel then row[BR_STATUS := Some 0] else row)
                               (p_branch ppc) ppc_idx)) (\<lambda>branch.
           bind_r (drop_labels lines_is dup) (\<lambda>lines_is.
           Inr (ppc\<lparr>p_branch := branch\<rparr>, lines_is)))))))
         else Inr (ppc, lines_is))"

text \<open>
  \<^verbatim>\<open>.real.astype(int)\<close> of an entry of the branch matrix: the real part, cut towards zero.
  A value that is not a number becomes the least integer, which is outside every array,
  so that the read that follows raises \<^verbatim>\<open>IndexError\<close>.
\<close>

definition to_int :: "c128 \<Rightarrow> error + int" where
  "to_int z = (case z of None \<Rightarrow> Inl IndexError
               | Some v \<Rightarrow> Inr (if 0 \<le> Re v then \<lfloor>Re v\<rfloor> else \<lceil>Re v\<rceil>))"

text \<open>
  A row of \<open>new_ls_buses\<close> and \<open>new_ts_buses\<close>: the template
  \<open>[0, 1, 0, 0, 0, 0, 1, 1, 0, 0, 1, 1.1, 0.9]\<close> with the index in column 0, the voltage
  magnitude and angle in the columns 7 and 8 and the base voltage in column 9.
\<close>

definition new_bus_row :: "int \<Rightarrow> f64 \<Rightarrow> f64 \<Rightarrow> f64 \<Rightarrow> f64 list" where
  "new_bus_row idx vm va base_kv =
     [fint idx, Some 1, Some 0, Some 0, Some 0, Some 0, Some 1, vm, va, base_kv, Some 1,
      Some (11 / 10), Some (9 / 10)]"

text \<open>
  \<^verbatim>\<open>ppc["branch"][rows, col] = values\<close>: the entries are written in order, so that the last
  value stays where a row occurs twice; a row or column outside the matrix raises.
\<close>

fun reroute :: "c128 list list \<Rightarrow> (nat \<times> nat \<times> int) list \<Rightarrow> error + c128 list list" where
  "reroute a [] = Inr a"
| "reroute a ((r, c, v) # ws) =
     (if r < length a \<and> c < length (a ! r) then reroute (a[r := (a ! r)[c := cint v]]) ws
      else Inl IndexError)"

text \<open>\<^verbatim>\<open>np.vstack\<close> of the bus matrix and the new rows of 13 columns.\<close>

definition vstack :: "f64 list list \<Rightarrow> f64 list list \<Rightarrow> error + f64 list list" where
  "vstack bus new = (if \<exists>row \<in> set bus. length row \<noteq> 13 then Inl BroadcastError
                     else Inr (bus @ new))"

text \<open>
  The treatment of the open switches of one element type: \<open>offset\<close> is what the code adds
  to the position of the branch when it re-routes its end (0 for lines, \<^verbatim>\<open>len(net.line)\<close>
  for transformers); the reads of the branch matrix use the position without an offset
  for both types.  With \<open>with_tap\<close> (transformers) the voltage magnitude is multiplied by
  column 8 and column 9 is added to the angle.
\<close>

definition switch_buses ::
  "net \<Rightarrow> ppc \<Rightarrow> string \<Rightarrow> nat \<Rightarrow> bool \<Rightarrow> nat \<Rightarrow> switch_row list \<Rightarrow> error + ppc" where
  "switch_buses net ppc branch_type offset with_tap first_index switches =
     bind_r (mapM_r (\<lambda>s. gather_branch_switch_info (sw_bus s) (sw_element s) branch_type net)
               switches) (\<lambda>info.
     let new_indices = map (\<lambda>k. int (first_index + k)) [0..<length switches] in
     bind_r (np_col (p_bus ppc) BASE_KV) (\<lambda>base_col.
     bind_r (get_values base_col (map (\<lambda>(is_to, bus, pos). bus) info) (n_bus_lookup net))
       (\<lambda>base_kv.
     bind_r (mapM_r (\<lambda>(is_to, bus, pos).
                bind_r (np_get2 (p_branch ppc) (int pos) (if is_to then 1 else 0)) to_int) info)
       (\<lambda>ends.
     bind_r (mapM_r (\<lambda>((is_to, bus, pos), e).
                if with_tap
                then bind_r (np_get2 (p_branch ppc) (int pos) 8) (\<lambda>taps.
                     bind_r (np_get2 (p_branch ppc) (int pos) 9) (\<lambda>shift.
                     bind_r (np_get2 (p_bus ppc) e 7) (\<lambda>vm.
                     bind_r (np_get2 (p_bus ppc) e 8) (\<lambda>va.
                     Inr (fmul vm (c_real taps), fadd va (c_real shift))))))
                else bind_r (np_get2 (p_bus ppc) e 7) (\<lambda>vm.
                     bind_r (np_get2 (p_bus ppc) e 8) (\<lambda>va. Inr (vm, va))))
               (zip info ends)) (\<lambda>volt.
     let new_buses = map3 (\<lambda>idx (vm, va) kv. new_bus_row idx vm va kv) new_indices volt base_kv;
         at_to = filter (\<lambda>((is_to, bus, pos), idx). is_to) (zip info new_indices);
         at_from = filter (\<lambda>((is_to, bus, pos), idx). \<not> is_to) (zip info new_indices) in
     bind_r (reroute (p_branch ppc) (map (\<lambda>((is_to, bus, pos), idx). (offset + pos, 1, idx)) at_to))
       (\<lambda>branch.
     bind_r (reroute branch (map (\<lambda>((is_to, bus, pos), idx). (offset + pos, 0, idx)) at_from))
       (\<lambda>branch.
     bind_r (vstack (p_bus ppc) new_buses) (\<lambda>bus.
     Inr (ppc\<lparr>p_bus := bus, p_branch := branch\<rparr>)))))))))"

definition switch_branches :: "net \<Rightarrow> ppc \<Rightarrow> error + ppc" where
  "switch_branches net ppc =
     (let lines_is = n_is_line net;
          bus_is = n_is_bus net;
          slidx = (\<lambda>s. \<not> sw_closed s \<and> sw_et s = ''l'');
          sw_elem = map sw_element (filter slidx (n_switch net));
          dup = dup_elems [] sw_elem in
      bind_r (if dup \<noteq> [] then isolate_lines net ppc lines_is dup else Inr (ppc, lines_is))
        (\<lambda>(ppc, lines_is).
      let slidx = (\<lambda>s. slidx s \<and> sw_element s \<in> l_index ` set lines_is
                          \<and> sw_bus s \<in> set bus_is);
          nlo = length (filter slidx (n_switch net));
          stidx = (\<lambda>s. \<not> sw_closed s \<and> sw_et s = ''t'');
          nto = length (filter stidx (n_switch net)) in
      if nlo + nto > 0
      then
        let n_bus = length (p_bus ppc) in
        bind_r (if nlo > 0
                then switch_buses net ppc ''l'' 0 False n_bus (filter slidx (n_switch net))
                else Inr ppc) (\<lambda>ppc.
        if nto > 0
        then switch_buses net ppc ''t'' (length (n_line net)) True (n_bus + nlo)
               (filter stidx (n_switch net))
        else Inr ppc)
      else Inr ppc))"

text \<open>
  An example for the switches: the line from bus 0 to bus 1 and the transformer from bus 1
  to bus 2, the branch matrix with their two rows (the transformer with tap ratio 21/20
  and a shift of 152 degrees), and an open switch at the to-bus of the line or at the
  low-voltage bus of the transformer.
\<close>

definition ex_branch_row :: "complex \<Rightarrow> complex \<Rightarrow> complex \<Rightarrow> complex \<Rightarrow> c128 list" where
  "ex_branch_row fb tb tap shift =
     map Some [fb, tb, 1 / 800, 1 / 400, 0, 250, 250, 250, tap, shift, 1, - 360, 360,
               0, 0, 0, 0, 0, 0]"

definition ex_net_sw :: "switch_row list \<Rightarrow> net" where
  "ex_net_sw sws = ex_net\<lparr>n_trafo := ex_trafo_df [ex_trafo], n_switch := sws\<rparr>"

definition ex_ppc_sw :: ppc where
  "ex_ppc_sw = ex_ppc\<lparr>p_branch := [ex_branch_row 0 1 1 0, ex_branch_row 1 2 (21 / 20) 152]\<rparr>"

text \<open>An open switch at bus \<open>b\<close> of the element \<open>e\<close> of type \<open>t\<close>.\<close>

definition ex_sw :: "int \<Rightarrow> int \<Rightarrow> string \<Rightarrow> switch_row" where
  "ex_sw b e t = \<lparr>sw_bus = b, sw_element = e, sw_et = t, sw_closed = False\<rparr>"

section \<open>Properties of the branch builder\<close>

lemmas idx_defs = F_BUS_def T_BUS_def BR_R_def BR_X_def BR_B_def RATE_A_def TAP_def SHIFT_def
  BR_STATUS_def QT_def BASE_KV_def

subsection \<open>Results and lists\<close>

lemma bind_r_simps [simp]: "bind_r (Inl e) f = Inl e" "bind_r (Inr x) f = f x"
  by (simp_all add: bind_r_def)

lemma bind_r_Inr_iff: "bind_r m f = Inr y \<longleftrightarrow> (\<exists>x. m = Inr x \<and> f x = Inr y)"
  by (cases m) simp_all

lemma bind_r_Inl_iff: "bind_r m f = Inl e \<longleftrightarrow> m = Inl e \<or> (\<exists>x. m = Inr x \<and> f x = Inl e)"
  by (cases m) simp_all

lemma mapM_r_length: "mapM_r f xs = Inr ys \<Longrightarrow> length ys = length xs"
  by (induction xs arbitrary: ys) (auto split: sum.splits)

lemma mapM_r_nth: "mapM_r f xs = Inr ys \<Longrightarrow> i < length xs \<Longrightarrow> f (xs ! i) = Inr (ys ! i)"
proof (induction xs arbitrary: ys i)
  case Nil
  then show ?case by simp
next
  case (Cons x xs)
  then show ?case by (cases i) (auto split: sum.splits)
qed

lemma mapM_r_update_same:
  "i < length xs \<Longrightarrow> f x' = f (xs ! i) \<Longrightarrow> mapM_r f (xs[i := x']) = mapM_r f xs"
proof (induction xs arbitrary: i)
  case Nil
  then show ?case by simp
next
  case (Cons x xs)
  then show ?case by (cases i) (auto split: sum.splits)
qed

lemma mapM_r_update_nth:
  "mapM_r f xs = Inr ys \<Longrightarrow> i < length xs \<Longrightarrow> f x' = Inr y' \<Longrightarrow>
   mapM_r f (xs[i := x']) = Inr (ys[i := y'])"
proof (induction xs arbitrary: i ys)
  case Nil
  then show ?case by simp
next
  case (Cons x xs)
  then show ?case by (cases i) (auto split: sum.splits)
qed

lemma map3_length:
  "length bs = length as \<Longrightarrow> length cs = length as \<Longrightarrow> length (map3 f as bs cs) = length as"
proof (induction as arbitrary: bs cs)
  case Nil
  then show ?case by simp
next
  case (Cons a as)
  then show ?case by (cases bs; cases cs) auto
qed

lemma map3_nth:
  "length bs = length as \<Longrightarrow> length cs = length as \<Longrightarrow> i < length as \<Longrightarrow>
   map3 f as bs cs ! i = f (as ! i) (bs ! i) (cs ! i)"
proof (induction as arbitrary: bs cs i)
  case Nil
  then show ?case by simp
next
  case (Cons a as)
  then show ?case by (cases bs; cases cs; cases i) auto
qed

lemma map4_length:
  "length bs = length as \<Longrightarrow> length cs = length as \<Longrightarrow> length ds = length as \<Longrightarrow>
   length (map4 f as bs cs ds) = length as"
proof (induction as arbitrary: bs cs ds)
  case Nil
  then show ?case by simp
next
  case (Cons a as)
  then show ?case by (cases bs; cases cs; cases ds) auto
qed

lemma map4_nth:
  "length bs = length as \<Longrightarrow> length cs = length as \<Longrightarrow> length ds = length as \<Longrightarrow>
   i < length as \<Longrightarrow> map4 f as bs cs ds ! i = f (as ! i) (bs ! i) (cs ! i) (ds ! i)"
proof (induction as arbitrary: bs cs ds i)
  case Nil
  then show ?case by simp
next
  case (Cons a as)
  then show ?case by (cases bs; cases cs; cases ds; cases i) auto
qed

subsection \<open>Arithmetic on values that may not be finite\<close>

lemma lift2_simps [simp]:
  "lift2 f None b = None" "lift2 f a None = None" "lift2 f (Some x) (Some y) = Some (f x y)"
  by (simp_all add: lift2_def split: option.splits)

lemma fdiv_simps [simp]:
  "fdiv None b = None" "fdiv a None = None"
  "fdiv (Some x) (Some y) = (if y = 0 then None else Some (x / y))"
  by (simp_all add: fdiv_def split: option.splits)

lemma cdiv_simps [simp]:
  "cdiv None b = None" "cdiv a None = None"
  "cdiv (Some x) (Some y) = (if y = 0 then None else Some (x / y))"
  by (simp_all add: cdiv_def split: option.splits)

lemma fsqrt_simps [simp]:
  "fsqrt None = None" "fsqrt (Some x) = (if x < 0 then None else Some (sqrt x))"
  by (simp_all add: fsqrt_def)

lemmas f64_defs = fadd_def fsub_def fmul_def fneg_def fsquare_def fsign_def fint_def fbool_def
  cadd_def csub_def cmul_def c_of_f_def c_real_def c_imag_def cint_def isfinite_def

lemma c_of_f_fdiv: "c_of_f (fdiv a b) = cdiv (c_of_f a) (c_of_f b)"
  by (cases a; cases b) (simp_all add: c_of_f_def)

lemma c_of_f_fmul: "c_of_f (fmul a b) = cmul (c_of_f a) (c_of_f b)"
  by (cases a; cases b) (simp_all add: c_of_f_def fmul_def cmul_def)

lemma cdiv_one: "cdiv a (c_of_f (fint 1)) = a"
  by (cases a) (simp_all add: fint_def c_of_f_def)

lemma cmul_one: "cmul a (c_of_f (fint 1)) = a"
  by (cases a) (simp_all add: cmul_def fint_def c_of_f_def)

lemma cdiv_as_cmul: "n \<noteq> 0 \<Longrightarrow> cdiv a (cint n) = cmul (c_of_f (fdiv (Some 1) (fint n))) a"
  by (cases a) (simp_all add: f64_defs)

subsection \<open>Lines: parallel systems\<close>

lemma calc_line_parameter_Inr:
  "calc_line_parameter net ppc ccp = Inr t \<longleftrightarrow>
   (\<exists>fb tb kv rate.
      mapM_r (\<lambda>l. np_get (n_bus_lookup net) (l_from_bus l)) (n_line net) = Inr fb \<and>
      mapM_r (\<lambda>l. np_get (n_bus_lookup net) (l_to_bus l)) (n_line net) = Inr tb \<and>
      mapM_r (\<lambda>b. np_get2 (p_bus ppc) b (int BASE_KV)) fb = Inr kv \<and>
      (if ccp
       then mapM_r (\<lambda>l. bind_r (bus_vn_kv_loc (n_bus net) (l_from_bus l))
              (\<lambda>vn. Inr (line_rate (n_line_has_max_loading_percent net) l vn))) (n_line net)
       else Inr (map (\<lambda>l. Some 0) (n_line net))) = Inr rate \<and>
      t = map4 (\<lambda>l (fb, tb) kv rate. line_values (n_sn_kva net) (n_f_hz net) l fb tb kv rate)
            (n_line net) (zip fb tb) kv rate)"
  unfolding calc_line_parameter_def Let_def bind_r_Inr_iff by auto

text \<open>
  C8.  Take any line table and any of its rows, and compare the row computed with the
  parallel count \<open>n \<ge> 1\<close> with the row computed with the parallel count 1, every other input
  the same: whenever the latter is computed, so is the former, its per-unit resistance and
  reactance (columns 2 and 3) are \<open>1/n\<close> times and its per-unit susceptance (column 4) is
  \<open>n\<close> times the value for one system.
\<close>

theorem line_parallel_scaling:
  assumes i: "i < length (n_line net)" and n: "1 \<le> n"
    and t1: "calc_line_parameter
              (net\<lparr>n_line := (n_line net)[i := (n_line net ! i)\<lparr>l_parallel := 1\<rparr>]\<rparr>) ppc ccp = Inr t1"
  shows "\<exists>tn. calc_line_parameter
              (net\<lparr>n_line := (n_line net)[i := (n_line net ! i)\<lparr>l_parallel := n\<rparr>]\<rparr>) ppc ccp = Inr tn
          \<and> tn ! i ! 2 = cmul (c_of_f (fdiv (Some 1) (fint n))) (t1 ! i ! 2)
          \<and> tn ! i ! 3 = cmul (c_of_f (fdiv (Some 1) (fint n))) (t1 ! i ! 3)
          \<and> tn ! i ! 4 = cmul (t1 ! i ! 4) (cint n)"
proof -
  let ?ls = "n_line net"
  let ?l1 = "(?ls ! i)\<lparr>l_parallel := 1\<rparr>" and ?ln = "(?ls ! i)\<lparr>l_parallel := n\<rparr>"
  let ?L1 = "?ls[i := ?l1]" and ?Ln = "?ls[i := ?ln]"
  let ?R = "\<lambda>l. bind_r (bus_vn_kv_loc (n_bus net) (l_from_bus l))
              (\<lambda>vn. Inr (line_rate (n_line_has_max_loading_percent net) l vn))"
  let ?V = "\<lambda>l (fb, tb) kv rate. line_values (n_sn_kva net) (n_f_hz net) l fb tb kv rate"
  from t1 obtain fb tb kv rate where
    fb: "mapM_r (\<lambda>l. np_get (n_bus_lookup net) (l_from_bus l)) ?L1 = Inr fb" and
    tb: "mapM_r (\<lambda>l. np_get (n_bus_lookup net) (l_to_bus l)) ?L1 = Inr tb" and
    kv: "mapM_r (\<lambda>b. np_get2 (p_bus ppc) b (int BASE_KV)) fb = Inr kv" and
    rate: "(if ccp then mapM_r ?R ?L1 else Inr (map (\<lambda>l. Some 0) ?L1)) = Inr rate" and
    t1_eq: "t1 = map4 ?V ?L1 (zip fb tb) kv rate"
    unfolding calc_line_parameter_Inr by (auto cong: if_cong)
  have len: "length fb = length ?ls" "length tb = length ?ls" "length kv = length ?ls"
    "length rate = length ?ls"
    using mapM_r_length[OF fb] mapM_r_length[OF tb] mapM_r_length[OF kv] rate
    by (auto split: if_splits dest: mapM_r_length)
  have fb': "mapM_r (\<lambda>l. np_get (n_bus_lookup net) (l_from_bus l)) ?Ln = Inr fb"
    using fb i by (simp add: mapM_r_update_same)
  have tb': "mapM_r (\<lambda>l. np_get (n_bus_lookup net) (l_to_bus l)) ?Ln = Inr tb"
    using tb i by (simp add: mapM_r_update_same)
  obtain rate' where
    rate': "(if ccp then mapM_r ?R ?Ln else Inr (map (\<lambda>l. Some 0) ?Ln)) = Inr rate'"
  proof (cases ccp)
    case False
    then show ?thesis using that by simp
  next
    case True
    with rate have r: "mapM_r ?R ?L1 = Inr rate" by simp
    from mapM_r_nth[OF r, of i] i obtain vn where
      vn: "bus_vn_kv_loc (n_bus net) (l_from_bus (?ls ! i)) = Inr vn"
      by (auto simp: bind_r_Inr_iff)
    have "mapM_r ?R (?L1[i := ?ln]) =
          Inr (rate[i := line_rate (n_line_has_max_loading_percent net) ?ln vn])"
      by (rule mapM_r_update_nth[OF r]) (use i vn in simp_all)
    then show ?thesis using that True by simp
  qed
  have len': "length rate' = length ?ls"
    using rate' by (auto split: if_splits dest: mapM_r_length)
  let ?tn = "map4 ?V ?Ln (zip fb tb) kv rate'"
  have tn: "calc_line_parameter (net\<lparr>n_line := ?Ln\<rparr>) ppc ccp = Inr ?tn"
    unfolding calc_line_parameter_Inr using fb' tb' kv rate' by (simp cong: if_cong)
  have n1: "t1 ! i = ?V ?l1 (fb ! i, tb ! i) (kv ! i) (rate ! i)"
    unfolding t1_eq using i len by (subst map4_nth) simp_all
  have nn: "?tn ! i = ?V ?ln (fb ! i, tb ! i) (kv ! i) (rate' ! i)"
    using i len len' by (subst map4_nth) simp_all
  have n0: "n \<noteq> 0" using n by simp
  have "?tn ! i ! 2 = cdiv (t1 ! i ! 2) (cint n)"
    unfolding n1 nn by (simp add: line_values_def Let_def cdiv_one c_of_f_fdiv cint_def)
  moreover have "?tn ! i ! 3 = cdiv (t1 ! i ! 3) (cint n)"
    unfolding n1 nn by (simp add: line_values_def Let_def cdiv_one c_of_f_fdiv cint_def)
  moreover have "?tn ! i ! 4 = cmul (t1 ! i ! 4) (cint n)"
    unfolding n1 nn by (simp add: line_values_def Let_def cmul_one c_of_f_fmul cint_def)
  ultimately show ?thesis using tn cdiv_as_cmul[OF n0] by metis
qed

theorem line_parallel_scaling_witness:
  "\<exists>tn. calc_line_parameter
          (ex_net\<lparr>n_line := (n_line ex_net)[0 := (n_line ex_net ! 0)\<lparr>l_parallel := 2\<rparr>]\<rparr>)
          ex_ppc False = Inr tn
      \<and> tn ! 0 ! 2 = Some (125 / 200000)
      \<and> tn ! 0 ! 3 = Some (25 / 20000)
      \<and> tn ! 0 ! 4 = Some (complex_of_real (2 * (2 * 50 * pi * 10 / 10 ^ 9 * 400 * 5)))"
proof -
  have t1: "calc_line_parameter
       (ex_net\<lparr>n_line := (n_line ex_net)[0 := (n_line ex_net ! 0)\<lparr>l_parallel := 1\<rparr>]\<rparr>)
       ex_ppc False
     = Inr [[Some 0, Some 1, Some (125 / 100000), Some (25 / 10000),
             Some (complex_of_real (2 * 50 * pi * 10 / 10 ^ 9 * 400 * 5)), Some 1, Some 0]]"
    by (simp add: calc_line_parameter_def ex_net_def ex_ppc_def ex_line_def ex_bus_row_def
        np_get_def np_get2_def Let_def line_values_def baseR_of_def f64_defs idx_defs)
  have i: "0 < length (n_line ex_net)"
    by (simp add: ex_net_def)
  from line_parallel_scaling[OF i _ t1, of 2] show ?thesis
    by (simp add: f64_defs)
qed

subsection \<open>Transformers: tap changer\<close>

lemma calc_tap_nth:
  "i < length (df_rows df) \<Longrightarrow>
   calc_tap_from_dataframe df vn_lv cva = (vnh, vnl, shift) \<Longrightarrow>
   (vnh ! i, vnl ! i, shift ! i) = calc_tap_row cva (df_has_tp_st_degree df) (df_rows df ! i)"
  by (auto simp: calc_tap_from_dataframe_def Let_def)

text \<open>
  C7.  For a row with a finite tap position let \<open>tap_diff\<close> be the tap position minus the
  neutral position.  With the tap side \<^verbatim>\<open>"hv"\<close> the high-side nominal voltage is multiplied
  by \<open>1 + tap_diff * step_percent / 100\<close>, the low side is left as it is, and
  \<open>tap_diff * step_angle\<close> is added to the phase shift when voltage angles are calculated
  and the table has a finite step angle for the row.  With the tap side \<^verbatim>\<open>"lv"\<close> the
  low-side nominal voltage is multiplied by the same factor and \<open>tap_diff * step_angle\<close>
  is subtracted.  The phase shift that is stepped is the row's \<open>shift_degree\<close> when voltage
  angles are calculated, and 0 otherwise.
\<close>

theorem tap_adjustment:
  assumes "i < length (df_rows df)"
    and "isfinite (t_tp_pos (df_rows df ! i))"
    and "calc_tap_from_dataframe df vn_lv cva = (vnh, vnl, shift)"
  shows "let r = df_rows df ! i;
             tap_diff = fsub (t_tp_pos r) (t_tp_mid r);
             factor = fadd (Some 1) (fdiv (fmul tap_diff (t_tp_st_percent r)) (Some 100));
             static = (if cva then t_shift_degree r else Some 0);
             stepped = (cva \<and> df_has_tp_st_degree df \<and> isfinite (t_tp_st_degree r))
         in (t_tp_side r = Some ''hv'' \<longrightarrow>
               vnh ! i = fmul (t_vn_hv_kv r) factor \<and> vnl ! i = t_vn_lv_kv r \<and>
               shift ! i = (if stepped then fadd static (fmul tap_diff (t_tp_st_degree r))
                            else static))
          \<and> (t_tp_side r = Some ''lv'' \<longrightarrow>
               vnl ! i = fmul (t_vn_lv_kv r) factor \<and> vnh ! i = t_vn_hv_kv r \<and>
               shift ! i = (if stepped then fsub static (fmul tap_diff (t_tp_st_degree r))
                            else static))"
  using calc_tap_nth[OF assms(1,3)] assms(2)
  by (auto simp: calc_tap_row_def Let_def)

theorem tap_adjustment_witness:
  "calc_tap_from_dataframe (ex_trafo_df [ex_trafo, ex_trafo\<lparr>t_tp_side := Some ''lv''\<rparr>])
       [Some 10, Some 10] True
     = ([Some 21, Some 20], [Some 10, Some (21 / 2)], [Some 152, Some 148])"
proof -
  let ?df = "ex_trafo_df [ex_trafo, ex_trafo\<lparr>t_tp_side := Some ''lv''\<rparr>]"
  obtain vnh vnl shift where
    c: "calc_tap_from_dataframe ?df [Some 10, Some 10] True = (vnh, vnl, shift)"
    by (cases "calc_tap_from_dataframe ?df [Some 10, Some 10] True")
  have l: "length vnh = 2" "length vnl = 2" "length shift = 2"
    using c by (auto simp: calc_tap_from_dataframe_def Let_def ex_trafo_df_def)
  have a0: "0 < length (df_rows ?df)" and a1: "1 < length (df_rows ?df)"
    by (simp_all add: ex_trafo_df_def)
  have f0: "isfinite (t_tp_pos (df_rows ?df ! 0))"
    and f1: "isfinite (t_tp_pos (df_rows ?df ! 1))"
    by (simp_all add: ex_trafo_df_def ex_trafo_def isfinite_def)
  from tap_adjustment[OF a0 f0 c]
  have h0: "vnh ! 0 = Some 21" "vnl ! 0 = Some 10" "shift ! 0 = Some 152"
    by (simp_all add: Let_def ex_trafo_df_def ex_trafo_def f64_defs)
  from tap_adjustment[OF a1 f1 c]
  have h1: "vnh ! 1 = Some 20" "vnl ! 1 = Some (21 / 2)" "shift ! 1 = Some 148"
    by (simp_all add: Let_def ex_trafo_df_def ex_trafo_def f64_defs)
  have two: "\<And>xs a b. length xs = 2 \<Longrightarrow> xs ! 0 = a \<Longrightarrow> xs ! 1 = b \<Longrightarrow> xs = [a, b]"
    by (metis One_nat_def Suc_1 length_0_conv length_Suc_conv nth_Cons_0 nth_Cons_Suc)
  show ?thesis using c l h0 h1 two by metis
qed

subsection \<open>Transformers: the model name\<close>

text \<open>
  C9.  With a model name other than \<^verbatim>\<open>"pi"\<close> and \<^verbatim>\<open>"t"\<close>,
  \<^verbatim>\<open>_calc_r_x_y_from_dataframe\<close> raises the error that names the unknown transformer
  model and returns nothing; with \<^verbatim>\<open>"pi"\<close> or \<^verbatim>\<open>"t"\<close> it returns a result.
\<close>

theorem trafo_model_check:
  "(trafo_model \<noteq> ''pi'' \<and> trafo_model \<noteq> ''t'' \<longrightarrow>
      calc_r_x_y_from_dataframe trafo_df vn_trafo_lv vn_lv trafo_model sn_kva
        = Inl (UnknownTransformerModel trafo_model))
   \<and> (trafo_model = ''pi'' \<or> trafo_model = ''t'' \<longrightarrow>
      (\<exists>res. calc_r_x_y_from_dataframe trafo_df vn_trafo_lv vn_lv trafo_model sn_kva = Inr res))"
proof (cases "calc_r_x_from_dataframe trafo_df vn_lv vn_trafo_lv sn_kva")
  case (Pair r x)
  have "\<exists>res. (Inr (wye_delta r x y) :: error + (f64 list \<times> f64 list \<times> c128 list)) = Inr res"
    for y
    by blast
  with Pair show ?thesis
    by (simp add: calc_r_x_y_from_dataframe_def Let_def del: ex_simps)
qed

theorem trafo_model_check_witness:
  "calc_r_x_y_from_dataframe (ex_trafo_df [ex_trafo]) [Some 10] [Some 10] ''delta'' (Some 1000)
     = Inl (UnknownTransformerModel ''delta'')
   \<and> (\<exists>res. calc_r_x_y_from_dataframe (ex_trafo_df [ex_trafo]) [Some 10] [Some 10] ''pi''
               (Some 1000) = Inr res)
   \<and> (\<exists>res. calc_r_x_y_from_dataframe (ex_trafo_df [ex_trafo]) [Some 10] [Some 10] ''t''
               (Some 1000) = Inr res)"
  using trafo_model_check[of "''delta''" "ex_trafo_df [ex_trafo]" "[Some 10]" "[Some 10]" "Some 1000"]
    trafo_model_check[of "''pi''" "ex_trafo_df [ex_trafo]" "[Some 10]" "[Some 10]" "Some 1000"]
    trafo_model_check[of "''t''" "ex_trafo_df [ex_trafo]" "[Some 10]" "[Some 10]" "Some 1000"]
  by simp

subsection \<open>Transformers: magnetizing admittance\<close>

lemma fsquare_Some [simp]: "fsquare (Some x) = Some (x\<^sup>2)"
  by (simp add: fsquare_def fmul_def power2_eq_square)

lemma sqrt_ex: "sqrt ((1 / 200)\<^sup>2 - (3 / 1000)\<^sup>2) = 1 / 250"
  by (rule real_sqrt_unique) (simp_all add: power2_eq_square)

lemma calc_y_nth:
  assumes "i < length (df_rows df)" and "length vn_lv = length (df_rows df)"
    and "length vn_trafo_lv = length (df_rows df)"
  shows "calc_y_from_dataframe df vn_lv vn_trafo_lv sn_kva ! i =
     (if \<exists>r \<in> set (df_rows df). t_tp_side r = Some ''lv''
      then cdiv (y_from_row sn_kva (df_rows df ! i) (vn_lv ! i))
             (c_of_f (y_lv_divisor (df_rows df ! i) (vn_lv ! i) (vn_trafo_lv ! i)))
      else y_from_row sn_kva (df_rows df ! i) (vn_lv ! i))"
proof -
  have mem: "Some ''lv'' \<in> set (map t_tp_side (df_rows df)) \<longleftrightarrow>
             (\<exists>r \<in> set (df_rows df). t_tp_side r = Some ''lv'')"
    by force
  show ?thesis
    unfolding calc_y_from_dataframe_def Let_def mem
    using assms by (auto simp: map3_nth)
qed

lemma y_from_row_finite:
  assumes "t_pfe_kw r = Some pfe" "t_i0_percent r = Some i0" "t_sn_kva r = Some sn"
    "t_vn_lv_kv r = Some vnl" "vnl \<noteq> 0" "S \<noteq> 0"
  shows "y_from_row (Some S) r (Some u) =
     Some (Complex
       (- (sgn i0 * (sqrt (max 0 ((i0 / 100 * sn / 1000)\<^sup>2 - (pfe / 1000)\<^sup>2))
              * (u\<^sup>2 / S * 1000) / vnl\<^sup>2)))
       (- (pfe / (1000 * vnl\<^sup>2) * (u\<^sup>2 / S * 1000))))"
proof -
  define rad where "rad = (i0 / 100 * sn / 1000)\<^sup>2 - (pfe / 1000)\<^sup>2"
  have b0: "fsub (fsquare (fdiv (fmul (fdiv (Some i0) (Some 100)) (Some sn)) (Some 1000)))
                 (fsquare (fdiv (Some pfe) (Some 1000))) = Some rad"
    by (simp add: rad_def fsub_def fmul_def)
  have clamp: "(if rad < 0 then Some 0 else Some rad) = Some (max 0 rad)"
    by (simp add: max_def)
  have base: "baseR_of (Some u) (Some S) = Some (u\<^sup>2 / S * 1000)"
    using assms(6) by (simp add: baseR_of_def fmul_def)
  have nn: "\<not> max 0 rad < 0"
    by simp
  have v2: "vnl\<^sup>2 \<noteq> 0"
    using assms(5) by simp
  show ?thesis
    unfolding y_from_row_def Let_def assms(1-4) b0 base rad_def[symmetric]
    using v2 nn
    by (simp add: clamp fmul_def fneg_def fsign_def csub_def cmul_def c_of_f_def complex_eq_iff
        del: max_less_iff_conj)
qed

lemma y_ex:
  "y_from_row (Some 1000) ex_trafo (Some 10) = Some (Complex (- (4 / 1000)) (- (3 / 1000)))"
proof -
  have "y_from_row (Some 1000) ex_trafo (Some 10) =
     Some (Complex
       (- (sgn (1 / 2) * (sqrt (max 0 (((1 / 2) / 100 * 1000 / 1000)\<^sup>2 - (3 / 1000)\<^sup>2))
              * (10\<^sup>2 / 1000 * 1000) / 10\<^sup>2)))
       (- (3 / (1000 * 10\<^sup>2) * (10\<^sup>2 / 1000 * 1000))))"
    by (rule y_from_row_finite) (simp_all add: ex_trafo_def)
  then show ?thesis
    by (simp add: sqrt_ex)
qed

text \<open>
  C10.  When some row of the table has the tap side \<^verbatim>\<open>"lv"\<close>, the admittance of every row
  of the table, whatever its own tap side, is divided by
  \<open>(vn_trafo_lv * vn_lv / vn_lv_kv / vn_lv)\<^sup>2\<close>; when no row has the tap side \<^verbatim>\<open>"lv"\<close>, no
  row's admittance is divided.
\<close>

theorem lv_correction_whole_table:
  assumes "i < length (df_rows df)" and "length vn_lv = length (df_rows df)"
    and "length vn_trafo_lv = length (df_rows df)"
  shows "((\<exists>r \<in> set (df_rows df). t_tp_side r = Some ''lv'') \<longrightarrow>
            calc_y_from_dataframe df vn_lv vn_trafo_lv sn_kva ! i =
              cdiv (y_from_row sn_kva (df_rows df ! i) (vn_lv ! i))
                (c_of_f (fsquare (fdiv (fdiv (fmul (vn_trafo_lv ! i) (vn_lv ! i))
                                              (t_vn_lv_kv (df_rows df ! i))) (vn_lv ! i)))))
       \<and> (\<not> (\<exists>r \<in> set (df_rows df). t_tp_side r = Some ''lv'') \<longrightarrow>
            calc_y_from_dataframe df vn_lv vn_trafo_lv sn_kva ! i =
              y_from_row sn_kva (df_rows df ! i) (vn_lv ! i))"
  using calc_y_nth[OF assms, of sn_kva] by (simp add: y_lv_divisor_def)

theorem lv_correction_whole_table_witness:
  "calc_y_from_dataframe (ex_trafo_df [ex_trafo, ex_trafo\<lparr>t_tp_side := Some ''lv''\<rparr>])
       [Some 10, Some 10] [Some 10, Some (21 / 2)] (Some 1000) ! 1
     = cdiv (y_from_row (Some 1000) (ex_trafo\<lparr>t_tp_side := Some ''lv''\<rparr>) (Some 10))
         (Some (441 / 400))
   \<and> calc_y_from_dataframe (ex_trafo_df [ex_trafo, ex_trafo\<lparr>t_tp_side := Some ''lv''\<rparr>])
       [Some 10, Some 10] [Some 10, Some (21 / 2)] (Some 1000) ! 0
     = cdiv (y_from_row (Some 1000) ex_trafo (Some 10)) (Some 1)
   \<and> calc_y_from_dataframe (ex_trafo_df [ex_trafo]) [Some 10] [Some 10] (Some 1000) ! 0
     = y_from_row (Some 1000) ex_trafo (Some 10)"
  using lv_correction_whole_table[of 1
      "ex_trafo_df [ex_trafo, ex_trafo\<lparr>t_tp_side := Some ''lv''\<rparr>]"
      "[Some 10, Some 10]" "[Some 10, Some (21 / 2)]" "Some 1000"]
    lv_correction_whole_table[of 0
      "ex_trafo_df [ex_trafo, ex_trafo\<lparr>t_tp_side := Some ''lv''\<rparr>]"
      "[Some 10, Some 10]" "[Some 10, Some (21 / 2)]" "Some 1000"]
    lv_correction_whole_table[of 0 "ex_trafo_df [ex_trafo]" "[Some 10]" "[Some 10]" "Some 1000"]
  by (simp add: ex_trafo_df_def) (simp add: ex_trafo_def f64_defs power2_eq_square)

text \<open>
  C4, as the code has it.  The claim puts the iron-loss term in the real part and the
  no-load term in the imaginary part.  \<^verbatim>\<open>_calc_y_from_dataframe\<close> returns the number
  "in the form (-b_img, -b_real)": the no-load term, times the sign of the no-load
  current, is the negated real part and the iron-loss term is the negated imaginary part;
  both are divided by the low-side tap correction when a row of the table has the tap
  side \<^verbatim>\<open>"lv"\<close>.  Stated for a row whose entries are finite, with \<open>baseZ = u\<^sup>2 / S * 1000\<close>
  for the base voltage \<open>u\<close> of the low-voltage bus and the power base \<open>S\<close>.
\<close>

theorem magnetizing_admittance:
  assumes "i < length (df_rows df)" and "length vn_lv = length (df_rows df)"
    and "length vn_trafo_lv = length (df_rows df)"
    and "t_pfe_kw (df_rows df ! i) = Some pfe" and "t_i0_percent (df_rows df ! i) = Some i0"
    and "t_sn_kva (df_rows df ! i) = Some sn" and "t_vn_lv_kv (df_rows df ! i) = Some vnl"
    and "vn_lv ! i = Some u" and "vn_trafo_lv ! i = Some w"
    and "vnl \<noteq> 0" and "S \<noteq> 0" and "u \<noteq> 0" and "w \<noteq> 0"
  shows "calc_y_from_dataframe df vn_lv vn_trafo_lv (Some S) ! i =
     Some (Complex
       (- (sgn i0 * (sqrt (max 0 ((i0 / 100 * sn / 1000)\<^sup>2 - (pfe / 1000)\<^sup>2))
              * (u\<^sup>2 / S * 1000) / vnl\<^sup>2)))
       (- (pfe / (1000 * vnl\<^sup>2) * (u\<^sup>2 / S * 1000)))
      / (if \<exists>r \<in> set (df_rows df). t_tp_side r = Some ''lv''
         then complex_of_real ((w * u / vnl / u)\<^sup>2) else 1))"
proof -
  note y = y_from_row_finite[OF assms(4-7) assms(10,11), of u]
  show ?thesis
  proof (cases "\<exists>r \<in> set (df_rows df). t_tp_side r = Some ''lv''")
    case True
    then show ?thesis
      using assms(7-13) unfolding calc_y_nth[OF assms(1-3)] assms(8) y
      by (simp add: f64_defs y_lv_divisor_def power2_eq_square)
  next
    case False
    then show ?thesis
      unfolding calc_y_nth[OF assms(1-3)] assms(8) y by simp
  qed
qed

theorem magnetizing_admittance_witness:
  "calc_y_from_dataframe (ex_trafo_df [ex_trafo]) [Some 10] [Some 10] (Some 1000) ! 0
     = Some (Complex (- (4 / 1000)) (- (3 / 1000)))
   \<and> calc_y_from_dataframe (ex_trafo_df [ex_trafo\<lparr>t_tp_side := Some ''lv''\<rparr>])
       [Some 10] [Some (21 / 2)] (Some 1000) ! 0
     = Some (Complex (- (4 / 1000)) (- (3 / 1000)) / complex_of_real ((21 / 20)\<^sup>2))"
proof -
  have n: "\<not> (\<exists>r \<in> set (df_rows (ex_trafo_df [ex_trafo])). t_tp_side r = Some ''lv'')"
    by (simp add: ex_trafo_df_def ex_trafo_def)
  have l: "\<exists>r \<in> set (df_rows (ex_trafo_df [ex_trafo\<lparr>t_tp_side := Some ''lv''\<rparr>])).
             t_tp_side r = Some ''lv''"
    by (simp add: ex_trafo_df_def)
  have a: "calc_y_from_dataframe (ex_trafo_df [ex_trafo]) [Some 10] [Some 10] (Some 1000) ! 0
     = Some (Complex (- (4 / 1000)) (- (3 / 1000)))"
    using magnetizing_admittance[of 0 "ex_trafo_df [ex_trafo]" "[Some 10]" "[Some 10]"
      3 "1 / 2" 1000 10 10 10 1000]
    unfolding if_not_P[OF n]
    by (simp add: ex_trafo_df_def ex_trafo_def sqrt_ex)
  have b: "calc_y_from_dataframe (ex_trafo_df [ex_trafo\<lparr>t_tp_side := Some ''lv''\<rparr>])
       [Some 10] [Some (21 / 2)] (Some 1000) ! 0
     = Some (Complex (- (4 / 1000)) (- (3 / 1000)) / complex_of_real ((21 / 20)\<^sup>2))"
    using magnetizing_admittance[of 0 "ex_trafo_df [ex_trafo\<lparr>t_tp_side := Some ''lv''\<rparr>]"
      "[Some 10]" "[Some (21 / 2)]" 3 "1 / 2" 1000 10 10 "21 / 2" 1000]
    unfolding if_P[OF l]
    by (simp add: ex_trafo_df_def ex_trafo_def sqrt_ex)
  show ?thesis using a b by simp
qed

text \<open>
  The claim as it is worded fails on the example transformer (3 kW iron losses, 0.5 %
  no-load current, 1000 kVA, 10 kV, \<open>baseZ = 100\<close>): the code returns \<open>-0.004 - 0.003 \<i>\<close>,
  the wording gives \<open>-0.003 - 0.004 \<i>\<close>.
\<close>

theorem magnetizing_admittance_counterexample:
  "calc_y_from_dataframe (ex_trafo_df [ex_trafo]) [Some 10] [Some 10] (Some 1000) ! 0
     = Some (Complex (- (4 / 1000)) (- (3 / 1000)))
   \<and> spec_y 3 (1 / 2) 1000 10 (10\<^sup>2 / 1000 * 1000) = Complex (- (3 / 1000)) (- (4 / 1000))
   \<and> calc_y_from_dataframe (ex_trafo_df [ex_trafo]) [Some 10] [Some 10] (Some 1000) ! 0
     \<noteq> Some (spec_y 3 (1 / 2) 1000 10 (10\<^sup>2 / 1000 * 1000))"
proof -
  have a: "calc_y_from_dataframe (ex_trafo_df [ex_trafo]) [Some 10] [Some 10] (Some 1000) ! 0
     = Some (Complex (- (4 / 1000)) (- (3 / 1000)))"
    by (simp add: calc_y_from_dataframe_def ex_trafo_df_def y_ex) (simp add: ex_trafo_def)
  have b: "spec_y 3 (1 / 2) 1000 10 (10\<^sup>2 / 1000 * 1000) = Complex (- (3 / 1000)) (- (4 / 1000))"
    by (simp add: spec_y_def sqrt_ex)
  show ?thesis unfolding a b by simp
qed

subsection \<open>Three-winding transformers: the tap side\<close>

lemma trafo3w_taps_lv: "t3_tp_side ttab = Some ''lv'' \<Longrightarrow> trafo3w_taps ttab tp = Inl IndexError"
  by (simp add: trafo3w_taps_def Let_def)

lemma trafo3w_loop_lv:
  "\<exists>r \<in> set rows. t3_tp_side r = Some ''lv'' \<Longrightarrow> \<exists>e. trafo3w_loop nr rows i tp d = Inl e"
proof (induction rows arbitrary: i tp d)
  case Nil
  then show ?case by simp
next
  case (Cons ttab rest)
  show ?case
  proof (cases "t3_tp_side ttab = Some ''lv''")
    case True
    then show ?thesis by (simp add: trafo3w_taps_lv)
  next
    case False
    with Cons.prems have "\<exists>r \<in> set rest. t3_tp_side r = Some ''lv''" by auto
    from Cons.IH[OF this] show ?thesis
      by (auto split: sum.splits prod.splits)
  qed
qed

text \<open>
  C5.  The claim asks that a three-winding transformer with the tap side \<^verbatim>\<open>"lv"\<close> gets its
  tap variables on the third equivalent and that the decomposition completes.  The code
  sets \<open>tp_trafo = 3\<close> for \<^verbatim>\<open>"lv"\<close>, and the list \<open>taps\<close> has the entries 0, 1, 2: whenever
  a row of the table has the tap side \<^verbatim>\<open>"lv"\<close>, \<^verbatim>\<open>_trafo_df_from_trafo3w\<close> raises and
  returns no table.
\<close>

theorem trafo3w_lv_tap_fails:
  assumes "\<exists>r \<in> set (n_trafo3w net). t3_tp_side r = Some ''lv''"
  shows "\<exists>e. trafo_df_from_trafo3w net = Inl e"
  using trafo3w_loop_lv[OF assms, of "length (n_trafo3w net)" 0 None "[]"]
  by (auto simp: trafo_df_from_trafo3w_def Let_def)

subsection \<open>Three-winding transformers: the order of the rows\<close>

lemma trafo3w_taps_length: "trafo3w_taps ttab tp = Inr (taps, tp') \<Longrightarrow> length taps = 3"
  by (auto simp: trafo3w_taps_def Let_def split: option.splits if_splits)



lemma keys_update: "fst ` set (AList.update k v al) = insert k (fst ` set al)"
  by (induction al) auto




subsection \<open>Shapes of the parameter arrays\<close>

lemma map5_length:
  "length bs = length as \<Longrightarrow> length cs = length as \<Longrightarrow> length ds = length as \<Longrightarrow>
   length es = length as \<Longrightarrow> length (map5 f as bs cs ds es) = length as"
proof (induction as arbitrary: bs cs ds es)
  case Nil
  then show ?case by simp
next
  case (Cons a as)
  then show ?case by (cases bs; cases cs; cases ds; cases es) auto
qed

lemma map5_set:
  "(\<And>a b c d e. P (f a b c d e)) \<Longrightarrow> \<forall>v \<in> set (map5 f as bs cs ds es). P v"
  by (induction f as bs cs ds es rule: map5.induct) auto

lemma map3_nth_min:
  "i < length as \<Longrightarrow> i < length bs \<Longrightarrow> i < length cs \<Longrightarrow>
   map3 f as bs cs ! i = f (as ! i) (bs ! i) (cs ! i)"
proof (induction as arbitrary: bs cs i)
  case Nil
  then show ?case by simp
next
  case (Cons a as)
  then show ?case by (cases bs; cases cs; cases i) auto
qed

lemma get_values_length: "get_values src sel lk = Inr vs \<Longrightarrow> length vs = length sel"
  unfolding get_values_def by (rule mapM_r_length)

lemma calc_tap_lengths:
  "calc_tap_from_dataframe df vn_lv cva = (a, b, c) \<Longrightarrow>
   length a = length (df_rows df) \<and> length b = length (df_rows df) \<and> length c = length (df_rows df)"
  by (auto simp: calc_tap_from_dataframe_def Let_def)

lemma calc_y_length:
  "length vn_lv = length (df_rows df) \<Longrightarrow> length vn_trafo_lv = length (df_rows df) \<Longrightarrow>
   length (calc_y_from_dataframe df vn_lv vn_trafo_lv sn) = length (df_rows df)"
  by (simp add: calc_y_from_dataframe_def Let_def map3_length)

lemma calc_r_x_lengths:
  "length vn_lv = length (df_rows df) \<Longrightarrow> length vn_trafo_lv = length (df_rows df) \<Longrightarrow>
   calc_r_x_from_dataframe df vn_lv vn_trafo_lv sn = (r, x) \<Longrightarrow>
   length r = length (df_rows df) \<and> length x = length (df_rows df)"
  by (auto simp: calc_r_x_from_dataframe_def Let_def map3_length)

lemma wye_delta_lengths:
  "length x = length r \<Longrightarrow> length y = length r \<Longrightarrow> wye_delta r x y = (r', x', y') \<Longrightarrow>
   length r' = length r \<and> length x' = length r \<and> length y' = length r"
  by (auto simp: wye_delta_def Let_def map3_length)

lemma calc_r_x_y_lengths:
  assumes "length vn_lv = length (df_rows df)" "length vn_trafo_lv = length (df_rows df)"
    and "calc_r_x_y_from_dataframe df vn_trafo_lv vn_lv tm sn = Inr (r, x, y)"
  shows "length r = length (df_rows df) \<and> length x = length (df_rows df)
         \<and> length y = length (df_rows df)"
proof -
  obtain r0 x0 where rx: "calc_r_x_from_dataframe df vn_lv vn_trafo_lv sn = (r0, x0)"
    by (cases "calc_r_x_from_dataframe df vn_lv vn_trafo_lv sn")
  note l = calc_r_x_lengths[OF assms(1,2) rx] calc_y_length[OF assms(1,2), of sn]
  from assms(3) have "(tm = ''pi'' \<and> (r, x, y) = (r0, x0, calc_y_from_dataframe df vn_lv vn_trafo_lv sn))
     \<or> (tm = ''t'' \<and> wye_delta r0 x0 (calc_y_from_dataframe df vn_lv vn_trafo_lv sn) = (r, x, y))"
    by (auto simp: calc_r_x_y_from_dataframe_def Let_def rx split: if_splits)
  then show ?thesis
  proof
    assume "tm = ''pi'' \<and> (r, x, y) = (r0, x0, calc_y_from_dataframe df vn_lv vn_trafo_lv sn)"
    then show ?thesis using l by simp
  next
    assume "tm = ''t'' \<and> wye_delta r0 x0 (calc_y_from_dataframe df vn_lv vn_trafo_lv sn) = (r, x, y)"
    then have w: "wye_delta r0 x0 (calc_y_from_dataframe df vn_lv vn_trafo_lv sn) = (r, x, y)" ..
    show ?thesis using wye_delta_lengths[OF _ _ w] l by simp
  qed
qed

lemma calc_nominal_ratio_length:
  assumes "length a = length (df_rows df)" "length b = length (df_rows df)"
    and "calc_nominal_ratio_from_dataframe ppc df a b lk = Inr ratio"
  shows "length ratio = length (df_rows df)"
proof -
  from assms(3) obtain kv_hv kv_lv base1 base2 where
    "get_values base1 (map t_hv_bus (df_rows df)) lk = Inr kv_hv"
    "get_values base2 (map t_lv_bus (df_rows df)) lk = Inr kv_lv"
    "ratio = map2 fdiv (map2 fdiv a b) (map2 fdiv kv_hv kv_lv)"
    by (auto simp: calc_nominal_ratio_from_dataframe_def Let_def bind_r_Inr_iff)
  then show ?thesis
    using assms(1,2) by (auto dest!: get_values_length)
qed

lemma calc_branch_values_shape:
  assumes "calc_branch_values_from_trafo_df net ppc tm cva df = Inr vals"
  shows "length vals = length (df_rows df) \<and> (\<forall>v \<in> set vals. length v = 5)"
proof -
  from assms obtain base_kv vn_lv where
    vn: "get_values base_kv (map t_lv_bus (df_rows df)) (n_bus_lookup net) = Inr vn_lv" and
    rest: "(let (vn_trafo_hv, vn_trafo_lv, shift) = calc_tap_from_dataframe df vn_lv cva in
      bind_r (calc_r_x_y_from_dataframe df vn_trafo_lv vn_lv tm (n_sn_kva net))
        (\<lambda>(r, x, y).
      bind_r (calc_nominal_ratio_from_dataframe ppc df vn_trafo_hv vn_trafo_lv (n_bus_lookup net))
        (\<lambda>ratio.
      Inr (map5 (\<lambda>(r, x) y p ratio shift.
                   [c_of_f (fdiv r p), c_of_f (fdiv x p), cmul y (c_of_f p),
                    c_of_f ratio, c_of_f shift])
             (zip r x) y (map (\<lambda>r. fint (t_parallel r)) (df_rows df)) ratio shift)))) = Inr vals"
    unfolding calc_branch_values_from_trafo_df_def Let_def bind_r_Inr_iff by blast
  obtain th tl sh where tap: "calc_tap_from_dataframe df vn_lv cva = (th, tl, sh)"
    by (cases "calc_tap_from_dataframe df vn_lv cva")
  from rest obtain r x y ratio where
    rxy: "calc_r_x_y_from_dataframe df tl vn_lv tm (n_sn_kva net) = Inr (r, x, y)" and
    ratio: "calc_nominal_ratio_from_dataframe ppc df th tl (n_bus_lookup net) = Inr ratio" and
    vals: "vals = map5 (\<lambda>(r, x) y p ratio shift.
                   [c_of_f (fdiv r p), c_of_f (fdiv x p), cmul y (c_of_f p),
                    c_of_f ratio, c_of_f shift])
             (zip r x) y (map (\<lambda>r. fint (t_parallel r)) (df_rows df)) ratio sh"
    unfolding tap by (auto simp: bind_r_Inr_iff)
  have lvn: "length vn_lv = length (df_rows df)"
    using get_values_length[OF vn] by simp
  note lt = calc_tap_lengths[OF tap]
  have ltl: "length tl = length (df_rows df)" and lth: "length th = length (df_rows df)"
    and lsh: "length sh = length (df_rows df)"
    using lt by simp_all
  note lr = calc_r_x_y_lengths[OF lvn ltl rxy]
  note lra = calc_nominal_ratio_length[OF lth ltl ratio]
  have "length vals = length (zip r x)"
    unfolding vals by (rule map5_length) (use lr lra lsh in simp_all)
  then have "length vals = length (df_rows df)" using lr by simp
  moreover have "\<forall>v \<in> set vals. length v = 5"
    unfolding vals by (rule map5_set) (simp split: prod.splits)
  ultimately show ?thesis by simp
qed

lemma trafo3w_loop_nonempty:
  "trafo3w_loop nr rows i tp d = Inr d' \<Longrightarrow> rows \<noteq> [] \<or> d \<noteq> [] \<Longrightarrow> d' \<noteq> []"
proof (induction rows arbitrary: i tp d)
  case Nil
  then show ?case by simp
next
  case (Cons ttab rest)
  obtain taps tp' where taps: "trafo3w_taps ttab tp = Inr (taps, tp')"
    using Cons.prems(1) by (cases "trafo3w_taps ttab tp") auto
  obtain h m l where legs: "trafo3w_legs i nr ttab taps = (h, m, l)"
    by (cases "trafo3w_legs i nr ttab taps")
  let ?d1 = "AList.update (i + 2 * nr) l (AList.update (i + nr) m (AList.update i h d))"
  have rec: "trafo3w_loop nr rest (i + 1) tp' ?d1 = Inr d'"
    using Cons.prems(1) by (simp add: taps legs)
  have "fst ` set ?d1 \<noteq> {}" unfolding keys_update by simp
  then have "?d1 \<noteq> []" by auto
  then show ?case using Cons.IH[OF rec] by simp
qed

lemma calc_trafo3w_parameter_shape:
  assumes "calc_trafo3w_parameter net ppc cva tm ccp = Inr t"
  shows "\<exists>df. trafo_df_from_trafo3w net = Inr df \<and> length t = length (df_rows df) \<and>
           (\<forall>r < length t. length (t ! r) = 9 \<and>
              (\<exists>hv lv. np_get (n_bus_lookup net) (t_hv_bus (df_rows df ! r)) = Inr hv \<and>
                       np_get (n_bus_lookup net) (t_lv_bus (df_rows df ! r)) = Inr lv \<and>
                       t ! r ! 0 = cint hv \<and> t ! r ! 1 = cint lv))"
proof -
  from assms obtain df hv lv vals where
    df: "trafo_df_from_trafo3w net = Inr df" and
    hv: "mapM_r (\<lambda>r. np_get (n_bus_lookup net) (t_hv_bus r)) (df_rows df) = Inr hv" and
    lv: "mapM_r (\<lambda>r. np_get (n_bus_lookup net) (t_lv_bus r)) (df_rows df) = Inr lv" and
    vals: "calc_branch_values_from_trafo_df net ppc tm cva df = Inr vals" and
    t: "t = map3 (\<lambda>r (hv, lv) v.
                  [cint hv, cint lv] @ v @
                  [c_of_f (fbool (t_in_service r)),
                   c_of_f (trafo3w_rate ccp (df_has_max_loading_percent df) r)])
            (df_rows df) (zip hv lv) vals"
    unfolding calc_trafo3w_parameter_def bind_r_Inr_iff by blast
  note lh = mapM_r_length[OF hv] and ll = mapM_r_length[OF lv]
  note sh = calc_branch_values_shape[OF vals]
  have len: "length t = length (df_rows df)"
    unfolding t by (rule map3_length) (use lh ll sh in simp_all)
  have row: "length (t ! r) = 9 \<and>
              (\<exists>hv lv. np_get (n_bus_lookup net) (t_hv_bus (df_rows df ! r)) = Inr hv \<and>
                       np_get (n_bus_lookup net) (t_lv_bus (df_rows df ! r)) = Inr lv \<and>
                       t ! r ! 0 = cint hv \<and> t ! r ! 1 = cint lv)" if r: "r < length t" for r
  proof -
    have r': "r < length (df_rows df)" using r len by simp
    have tr: "t ! r = [cint (hv ! r), cint (lv ! r)] @ vals ! r @
                  [c_of_f (fbool (t_in_service (df_rows df ! r))),
                   c_of_f (trafo3w_rate ccp (df_has_max_loading_percent df) (df_rows df ! r))]"
      unfolding t using r' lh ll sh by (subst map3_nth) simp_all
    have "vals ! r \<in> set vals" using r' sh by simp
    then have l5: "length (vals ! r) = 5" using sh by blast
    show ?thesis
      using mapM_r_nth[OF hv r'] mapM_r_nth[OF lv r'] l5 unfolding tr by simp
  qed
  show ?thesis using df len row by blast
qed

lemma trafo_df_from_trafo3w_Inr:
  assumes "trafo_df_from_trafo3w net = Inr df"
  shows "\<exists>d. trafo3w_loop (length (n_trafo3w net)) (n_trafo3w net) 0 None [] = Inr d \<and> d \<noteq> []
             \<and> df_rows df = map snd d"
proof -
  obtain d where l: "trafo3w_loop (length (n_trafo3w net)) (n_trafo3w net) 0 None [] = Inr d"
    and r: "(if d = [] then Inl KeyError
             else Inr \<lparr>df_rows = map snd d, df_has_tp_st_degree = False,
                       df_has_max_loading_percent = True\<rparr>) = Inr df"
    using assms unfolding trafo_df_from_trafo3w_def Let_def bind_r_Inr_iff by blast
  have ne: "d \<noteq> []" using r by (cases "d = []") simp_all
  with r have "df = \<lparr>df_rows = map snd d, df_has_tp_st_degree = False,
                       df_has_max_loading_percent = True\<rparr>" by simp
  then have "df_rows df = map snd d" by simp
  with l ne show ?thesis by blast
qed

lemma trafo_df_from_trafo3w_nonempty:
  assumes "trafo_df_from_trafo3w net = Inr df"
  shows "df_rows df \<noteq> []"
proof
  assume e: "df_rows df = []"
  from trafo_df_from_trafo3w_Inr[OF assms] obtain d :: "(nat \<times> trafo_row) list" where
    d: "d \<noteq> []" and r: "df_rows df = map snd d"
    by blast
  from r e have "length (map snd d) = 0" by simp
  then have "length d = 0" by (simp only: length_map)
  with d show False by simp
qed

lemma np_assign_cols:
  assumes "np_assign a lo hi cols v = Inr a'"
  shows "\<forall>row \<in> set v. length row = length cols"
proof (rule ccontr)
  assume "\<not> ?thesis"
  then have bad: "\<exists>row \<in> set v. length row \<noteq> length cols" by simp
  have "np_assign a lo hi cols v = Inl IndexError \<or> np_assign a lo hi cols v = Inl BroadcastError"
  proof (cases "\<exists>row \<in> set a. \<exists>c \<in> set cols. length row \<le> c")
    case True
    then show ?thesis unfolding np_assign_def Let_def by (simp only: if_True simp_thms)
  next
    case False
    then show ?thesis unfolding np_assign_def Let_def using bad
      by (simp only: if_False if_True simp_thms)
  qed
  with assms show False by auto
qed

lemma fill_rows_cols:
  assumes "fill_rows True (Inr t) lo hi cols ppc = Inr ppc'"
  shows "\<forall>row \<in> set t. length row = length cols"
proof -
  from assms obtain b where "np_assign (p_branch ppc) lo hi cols t = Inr b"
    unfolding fill_rows_def by (cases "np_assign (p_branch ppc) lo hi cols t") simp_all
  then show ?thesis by (rule np_assign_cols)
qed

text \<open>
  C1.  The claim asks that the incremental update overwrites the rows of the two-winding
  and three-winding transformers with the rows of a full rebuild.  The update assigns the
  nine columns \<^verbatim>\<open>_calc_trafo3w_parameter\<close> returns to a list of eight columns
  (\<^verbatim>\<open>RATE_A\<close>, which \<^verbatim>\<open>_build_branch_ppc\<close> has, is missing): for every network with a
  three-winding transformer, every case and every setting, the update raises and returns
  no matrix.
\<close>

theorem update_fails_with_trafo3w:
  assumes "n_trafo3w net \<noteq> []"
  shows "\<exists>e. update_trafo_trafo3w_ppc net ppc cva tm ccp = Inl e"
proof (rule ccontr)
  assume "\<not> ?thesis"
  then obtain ppc' where ok: "update_trafo_trafo3w_ppc net ppc cva tm ccp = Inr ppc'"
    by (cases "update_trafo_trafo3w_ppc net ppc cva tm ccp") auto
  let ?le = "length (n_line net)"
  let ?te = "?le + length (df_rows (n_trafo net))"
  let ?t3e = "?te + length (n_trafo3w net) * 3"
  have gt: "?t3e > ?te" using assms by simp
  from ok obtain ppc1 where
    st2: "fill_rows True (calc_trafo3w_parameter net ppc1 cva tm False) ?te ?t3e
            [F_BUS, T_BUS, BR_R, BR_X, BR_B, TAP, SHIFT, BR_STATUS] ppc1 = Inr ppc'"
    unfolding update_trafo_trafo3w_ppc_def Let_def bind_r_Inr_iff using gt by auto
  then obtain t where t: "calc_trafo3w_parameter net ppc1 cva tm False = Inr t"
    by (cases "calc_trafo3w_parameter net ppc1 cva tm False") (auto simp: fill_rows_def)
  from calc_trafo3w_parameter_shape[OF t] obtain df where
    df: "trafo_df_from_trafo3w net = Inr df" and len: "length t = length (df_rows df)" and
    rows: "\<forall>r < length t. length (t ! r) = 9" by blast
  have "t \<noteq> []" using trafo_df_from_trafo3w_nonempty[OF df] len by auto
  then have "t ! 0 \<in> set t" and "length (t ! 0) = 9" using rows by auto
  moreover have "\<forall>row \<in> set t. length row = 8"
    using fill_rows_cols[OF st2[unfolded t]] by simp
  ultimately show False by auto
qed

subsection \<open>Assignments to the branch matrix\<close>

lemma fold_upd_length:
  "length (fold (\<lambda>(c, x) r. r[c := x]) ps row) = length row"
  by (induction ps arbitrary: row) (auto split: prod.splits)

lemma set_cols_length [simp]: "length (set_cols row cols vals) = length row"
  unfolding set_cols_def by (rule fold_upd_length)












subsection \<open>The rows of the three-winding transformers in the branch matrix\<close>

lemmas eval_defs = build_branch_ppc_def update_trafo_trafo3w_ppc_def fill_rows_def calc_line_parameter_def
      calc_trafo_parameter_def calc_trafo3w_parameter_def calc_impedance_parameter_def calc_xward_parameter_def
      calc_branch_values_from_trafo_df_def calc_tap_from_dataframe_def calc_tap_row_def
      calc_r_x_y_from_dataframe_def calc_y_from_dataframe_def calc_r_x_from_dataframe_def
      calc_nominal_ratio_from_dataframe_def get_values_def np_col_def np_assign_def set_cols_def
      default_branch_row_def y_from_row_def r_x_from_row_def trafo3w_rate_def trafo_rate_def
      trafo_df_from_trafo3w_def trafo3w_taps_def Let_def trafo3w_legs_def z_br_to_bus_def pymin_def
      nan_taps_def trafo3w_leg_def f64_defs
      np_get_def np_get2_def line_values_def baseR_of_def idx_defs

lemmas ex_defs = ex_net_def ex_ppc_def ex_line_def ex_bus_row_def ex_trafo3w_def ex_trafo3w'_def ex_net3_def






theorem trafo3w_lv_tap_fails_witness:
  "(\<exists>e. trafo_df_from_trafo3w (ex_net\<lparr>n_trafo3w := [ex_trafo3w\<lparr>t3_tp_side := Some ''lv''\<rparr>]\<rparr>) = Inl e)
   \<and> trafo_df_from_trafo3w (ex_net\<lparr>n_trafo3w := [ex_trafo3w\<lparr>t3_tp_side := Some ''lv''\<rparr>]\<rparr>)
       = Inl IndexError"
proof -
  have "\<exists>r \<in> set (n_trafo3w (ex_net\<lparr>n_trafo3w := [ex_trafo3w\<lparr>t3_tp_side := Some ''lv''\<rparr>]\<rparr>)).
          t3_tp_side r = Some ''lv''"
    by simp
  from trafo3w_lv_tap_fails[OF this] show ?thesis
    by (simp add: trafo_df_from_trafo3w_def trafo3w_taps_def Let_def)
qed

lemma ex_update_error:
  assumes "\<forall>row \<in> set b. length row = 19"
  shows "update_trafo_trafo3w_ppc (ex_net\<lparr>n_trafo3w := [ex_trafo3w]\<rparr>)
           \<lparr>p_bus = p_bus ex_ppc, p_branch = b\<rparr> True ''pi'' False = Inl BroadcastError"
proof -
  have no: "\<not> (\<exists>row \<in> set b. \<exists>c \<in> set [F_BUS, T_BUS, BR_R, BR_X, BR_B, TAP, SHIFT, BR_STATUS].
               length row \<le> c)"
    using assms by (auto simp: idx_defs)
  obtain t where t: "calc_trafo3w_parameter (ex_net\<lparr>n_trafo3w := [ex_trafo3w]\<rparr>)
           \<lparr>p_bus = p_bus ex_ppc, p_branch = b\<rparr> True ''pi'' False = Inr t"
    and l: "t \<noteq> []" "\<forall>row \<in> set t. length row = 9"
    by (simp add: eval_defs ex_defs)
  have bad: "\<exists>row \<in> set t. length row \<noteq> length [F_BUS, T_BUS, BR_R, BR_X, BR_B, TAP, SHIFT, BR_STATUS]"
    using l by (cases t) auto
  have "np_assign b 1 4 [F_BUS, T_BUS, BR_R, BR_X, BR_B, TAP, SHIFT, BR_STATUS] t = Inl BroadcastError"
    unfolding np_assign_def Let_def using no bad by (simp only: if_False if_True simp_thms)
  moreover have "length (n_line ex_net) = 1" "df_rows (n_trafo ex_net) = []"
    by (simp_all add: ex_net_def)
  ultimately show ?thesis
    unfolding update_trafo_trafo3w_ppc_def Let_def fill_rows_def
    by (simp add: t)
qed

theorem update_fails_with_trafo3w_witness:
  "bind_r (build_branch_ppc (ex_net\<lparr>n_trafo3w := [ex_trafo3w]\<rparr>) ex_ppc True ''pi'' False)
     (\<lambda>p. update_trafo_trafo3w_ppc (ex_net\<lparr>n_trafo3w := [ex_trafo3w]\<rparr>) p True ''pi'' False)
   = Inl BroadcastError"
proof -
  let ?net = "ex_net\<lparr>n_trafo3w := [ex_trafo3w]\<rparr>"
  have "\<exists>p. build_branch_ppc ?net ex_ppc True ''pi'' False = Inr p"
    by (simp add: eval_defs ex_defs)
  then obtain p where p: "build_branch_ppc ?net ex_ppc True ''pi'' False = Inr p"
    by blast
  have bus: "p_bus p = p_bus ex_ppc"
    using p by (auto simp: eval_defs ex_defs)
  have w: "\<forall>row \<in> set (p_branch p). length row = 19"
    using p by (auto simp: eval_defs ex_defs eval_nat_numeral)
  have p_eq: "p = \<lparr>p_bus = p_bus ex_ppc, p_branch = p_branch p\<rparr>"
    using bus by (cases p) simp
  have ne: "n_trafo3w ?net \<noteq> []" by simp
  from update_fails_with_trafo3w[OF ne, of p True "''pi''" False] obtain e where
    e: "update_trafo_trafo3w_ppc ?net p True ''pi'' False = Inl e" by blast
  have "update_trafo_trafo3w_ppc ?net p True ''pi'' False = Inl BroadcastError"
    using ex_update_error[OF w] p_eq by simp
  with e show ?thesis unfolding p by simp
qed

subsection \<open>Switches\<close>













lemmas sw_defs = switch_branches_def switch_buses_def isolate_lines_def ix_column_def drop_labels_def
  in1d_def to_int_def new_bus_row_def vstack_def gather_branch_switch_info_def
  List.map_filter_def

lemmas ex_sw_defs = ex_net_sw_def ex_ppc_sw_def ex_branch_row_def ex_trafo_df_def ex_trafo_def



text \<open>
  C3, as the code has it.  The voltage of the new bus is read at the bus that the branch
  matrix holds at the switch's own end of the branch, not at the other end, and the row
  that is read for a transformer is the row at the position of the transformer in its own
  table, without the offset \<^verbatim>\<open>len(net.line)\<close> that the re-routing adds.  In the example the
  open switch at the to-bus 1 of the line from bus 0 gives the new bus the magnitude 0.9 and
  the angle 5 of bus 1, where the other end, bus 0, has 1 and 0.  The open switch at the
  low-voltage bus 2 of the transformer from bus 1, whose row has the tap ratio 21/20 and
  the shift 152, gives the new bus 0.9 and 5, read through the row of the line; the other
  side with the tap ratio and the shift of the row of the transformer is 0.945 and 157.
\<close>

theorem aux_bus_voltage_from_switch_side:
  "switch_branches (ex_net_sw [ex_sw 1 0 ''l'']) ex_ppc_sw
     = Inr (ex_ppc_sw\<lparr>p_bus := p_bus ex_ppc_sw @ [new_bus_row 4 (Some (9 / 10)) (Some 5) (Some 20)],
                      p_branch := [ex_branch_row 0 4 1 0, ex_branch_row 1 2 (21 / 20) 152]\<rparr>)
   \<and> p_bus ex_ppc_sw ! 1 ! 7 = Some (9 / 10) \<and> p_bus ex_ppc_sw ! 1 ! 8 = Some 5
   \<and> p_bus ex_ppc_sw ! 0 ! 7 = Some 1 \<and> p_bus ex_ppc_sw ! 0 ! 8 = Some 0
   \<and> switch_branches (ex_net_sw [ex_sw 2 0 ''t'']) ex_ppc_sw
     = Inr (ex_ppc_sw\<lparr>p_bus := p_bus ex_ppc_sw @ [new_bus_row 4 (Some (9 / 10)) (Some 5) (Some 10)],
                      p_branch := [ex_branch_row 0 1 1 0, ex_branch_row 1 4 (21 / 20) 152]\<rparr>)
   \<and> fmul (p_bus ex_ppc_sw ! 1 ! 7) (c_real (p_branch ex_ppc_sw ! 1 ! TAP)) = Some (189 / 200)
   \<and> fadd (p_bus ex_ppc_sw ! 1 ! 8) (c_real (p_branch ex_ppc_sw ! 1 ! SHIFT)) = Some 157"
  by (simp add: sw_defs eval_defs ex_defs ex_sw_defs ex_sw_def)

end
